theory Spec2Isabelle
  imports Main
begin

section \<open>Python strings\<close>

text \<open>
  A Python \<open>str\<close> is a sequence of Unicode code points, and the sources compare,
  search and lower-case Cyrillic text, so a string is a list of code points.
  \<open>u\<close> turns an ASCII literal into such a list; Cyrillic literals of the sources
  are written as their code points, with a transliteration beside them.
\<close>

type_synonym ustring = "nat list"

definition u :: "string \<Rightarrow> ustring" where
  "u s = map of_char s"

text \<open>\<open>s.startswith(p)\<close>\<close>

fun startswith :: "ustring \<Rightarrow> ustring \<Rightarrow> bool" where
  "startswith s [] = True"
| "startswith [] (p # ps) = False"
| "startswith (c # s) (p # ps) = (c = p \<and> startswith s ps)"

text \<open>\<open>sub in s\<close> for two strings: \<open>sub\<close> occurs in \<open>s\<close> as a contiguous run.\<close>

fun contains :: "ustring \<Rightarrow> ustring \<Rightarrow> bool" where
  "contains sub [] = (sub = [])"
| "contains sub (c # s) = (startswith (c # s) sub \<or> contains sub s)"

text \<open>
  \<open>str.lower()\<close>, for the scripts the sources use: the Latin capitals A-Z
  (U+0041..U+005A), the Cyrillic capitals U+0410..U+042F (to U+0430..U+044F) and
  U+0400..U+040F (to U+0450..U+045F). Every other code point is left as it is.
\<close>

definition lower_cp :: "nat \<Rightarrow> nat" where
  "lower_cp c =
     (if 65 \<le> c \<and> c \<le> 90 then c + 32
      else if 1040 \<le> c \<and> c \<le> 1071 then c + 32
      else if 1024 \<le> c \<and> c \<le> 1039 then c + 80
      else c)"

definition lower :: "ustring \<Rightarrow> ustring" where
  "lower s = map lower_cp s"

section \<open>Python values and dictionaries\<close>

text \<open>
  A \<open>dict\<close> keeps its keys in insertion order, and storing under a key that is
  present replaces the value in place: an association list with \<open>dict_set\<close>.
\<close>

fun dict_set :: "'k \<Rightarrow> 'v \<Rightarrow> ('k \<times> 'v) list \<Rightarrow> ('k \<times> 'v) list" where
  "dict_set k v [] = [(k, v)]"
| "dict_set k v ((k', v') # d) =
     (if k' = k then (k, v) # d else (k', v') # dict_set k v d)"

definition dict_get :: "('k \<times> 'v) list \<Rightarrow> 'k \<Rightarrow> 'v option" where
  "dict_get d k = map_of d k"

text \<open>\<open>{**d, **e}\<close>: the entries of \<open>e\<close> stored into \<open>d\<close> one after the other.\<close>

fun dict_update :: "('k \<times> 'v) list \<Rightarrow> ('k \<times> 'v) list \<Rightarrow> ('k \<times> 'v) list" where
  "dict_update d [] = d"
| "dict_update d ((k, v) # e) = dict_update (dict_set k v d) e"

text \<open>
  A \<open>float\<close> is kept as the decimal literal that denotes it, significand and
  exponent of ten (\<open>0.7\<close> is \<open>Float 7 (-1)\<close>); the sources only pass floats on and
  test them for truth.
\<close>

datatype pyfloat = Float int int

text \<open>
  The values \<open>json.loads\<close> returns and the values a request carries:
  \<open>None\<close>, \<open>bool\<close>, \<open>int\<close>, \<open>float\<close>, \<open>str\<close>, \<open>list\<close> and \<open>dict\<close>.
\<close>

datatype pyval =
    PNone
  | PBool bool
  | PInt int
  | PFloat pyfloat
  | PStr ustring
  | PList "pyval list"
  | PDict "(ustring \<times> pyval) list"

section \<open>The gateway: adapting a chat-completion request to the model\<close>

text \<open>\<open>new_models\<close> of \<open>ProxyAPIClient._uses_max_completion_tokens\<close>.\<close>

definition new_models :: "ustring list" where
  "new_models = [u ''gpt-5'', u ''o1-preview'', u ''o1-mini'', u ''o3-mini'', u ''o3'']"

definition uses_max_completion_tokens :: "ustring \<Rightarrow> bool" where
  "uses_max_completion_tokens model =
     (let model_lower = lower model
      in list_ex (\<lambda>new_model. startswith model_lower new_model) new_models)"

text \<open>\<open>fixed_temp_models\<close> of \<open>ProxyAPIClient._supports_custom_temperature\<close>.\<close>

definition fixed_temp_models :: "ustring list" where
  "fixed_temp_models = [u ''gpt-5'', u ''o1-preview'', u ''o1-mini'', u ''o3-mini'', u ''o3'']"

definition supports_custom_temperature :: "ustring \<Rightarrow> bool" where
  "supports_custom_temperature model =
     (let model_lower = lower model
      in \<not> list_ex (\<lambda>fixed_model. startswith model_lower fixed_model) fixed_temp_models)"

text \<open>\<open>if max_tokens:\<close> on an \<open>Optional[int]\<close>: \<open>None\<close> and \<open>0\<close> are false.\<close>

fun max_tokens_given :: "int option \<Rightarrow> bool" where
  "max_tokens_given None = False"
| "max_tokens_given (Some n) = (n \<noteq> 0)"

text \<open>
  The \<open>params\<close> dictionary \<open>chat_completion\<close> builds and passes to
  \<open>client.chat.completions.create(**params)\<close>. \<open>kwargs\<close> are the caller's extra
  keyword arguments; Python binds \<open>messages\<close>, \<open>model\<close>, \<open>temperature\<close>,
  \<open>max_tokens\<close> and \<open>json_mode\<close> to the named parameters, so none of them is a
  key of \<open>kwargs\<close> (\<open>kwargs_ok\<close>).
\<close>

definition named_parameters :: "ustring list" where
  "named_parameters =
     [u ''messages'', u ''model'', u ''temperature'', u ''max_tokens'', u ''json_mode'']"

definition kwargs_ok :: "(ustring \<times> pyval) list \<Rightarrow> bool" where
  "kwargs_ok kwargs = list_all (\<lambda>k. dict_get kwargs k = None) named_parameters"

definition chat_completion_params ::
  "pyval \<Rightarrow> ustring \<Rightarrow> pyfloat \<Rightarrow> int option \<Rightarrow> bool \<Rightarrow> (ustring \<times> pyval) list
     \<Rightarrow> (ustring \<times> pyval) list" where
  "chat_completion_params messages model temperature max_tokens json_mode kwargs =
     (let params0 = dict_update [(u ''model'', PStr model), (u ''messages'', messages)] kwargs;
          params1 = (if supports_custom_temperature model
                     then dict_set (u ''temperature'') (PFloat temperature) params0
                     else params0);
          params2 = (if max_tokens_given max_tokens
                     then (if uses_max_completion_tokens model
                           then dict_set (u ''max_completion_tokens'') (PInt (the max_tokens)) params1
                           else dict_set (u ''max_tokens'') (PInt (the max_tokens)) params1)
                     else params1)
      in if json_mode
         then dict_set (u ''response_format'') (PDict [(u ''type'', PStr (u ''json_object''))]) params2
         else params2)"

section \<open>The conversation handler: offering an illustration\<close>

text \<open>
  \<open>with_image_keywords\<close> of \<open>should_offer_image\<close>: post, stat'ya, publikatsiya,
  zametka, blog, instagram, facebook, vk, telegram, sotsset.
\<close>

definition with_image_keywords :: "ustring list" where
  "with_image_keywords =
     [[1087, 1086, 1089, 1090],
      [1089, 1090, 1072, 1090, 1100, 1103],
      [1087, 1091, 1073, 1083, 1080, 1082, 1072, 1094, 1080, 1103],
      [1079, 1072, 1084, 1077, 1090, 1082, 1072],
      [1073, 1083, 1086, 1075],
      u ''instagram'', u ''facebook'', u ''vk'', u ''telegram'',
      [1089, 1086, 1094, 1089, 1077, 1090]]"

text \<open>
  \<open>without_image_keywords\<close>: stsenariy, skript, instruktsiya, plan, tekst, email,
  pis'mo, rassylka, opisanie.
\<close>

definition without_image_keywords :: "ustring list" where
  "without_image_keywords =
     [[1089, 1094, 1077, 1085, 1072, 1088, 1080, 1081],
      [1089, 1082, 1088, 1080, 1087, 1090],
      [1080, 1085, 1089, 1090, 1088, 1091, 1082, 1094, 1080, 1103],
      [1087, 1083, 1072, 1085],
      [1090, 1077, 1082, 1089, 1090],
      u ''email'',
      [1087, 1080, 1089, 1100, 1084, 1086],
      [1088, 1072, 1089, 1089, 1099, 1083, 1082, 1072],
      [1086, 1087, 1080, 1089, 1072, 1085, 1080, 1077]]"

text \<open>
  The two loops of \<open>should_offer_image\<close> return at the first keyword found; the
  function falls through to \<open>return True\<close>.
\<close>

definition should_offer_image :: "ustring \<Rightarrow> bool" where
  "should_offer_image format_type =
     (let format_lower = lower format_type
      in if list_ex (\<lambda>keyword. contains keyword format_lower) without_image_keywords then False
         else if list_ex (\<lambda>keyword. contains keyword format_lower) with_image_keywords then True
         else True)"

text \<open>
  Three format strings: "Post dlya Instagram", "Stsenariy dlya video" and
  "Podkast" (which holds no keyword of either list), in Cyrillic.
\<close>

definition format_post_instagram :: ustring where
  "format_post_instagram =
     [1055, 1086, 1089, 1090, 32, 1076, 1083, 1103, 32] @ u ''Instagram''"

definition format_video_script :: ustring where
  "format_video_script =
     [1057, 1094, 1077, 1085, 1072, 1088, 1080, 1081, 32, 1076, 1083, 1103, 32,
      1074, 1080, 1076, 1077, 1086]"

definition format_podcast :: ustring where
  "format_podcast = [1055, 1086, 1076, 1082, 1072, 1089, 1090]"

section \<open>Exceptions\<close>

text \<open>
  The exception classes of \<open>core/exceptions.py\<close> that the modelled code raises, the two
  \<open>httpx\<close> classes \<open>chat_completion\<close> names in its handlers, \<open>OtherException\<close> for
  any other exception a client library raises, and the interpreter's own exceptions.
  None of the first six is a subclass of another: \<open>except GenerationError\<close> catches
  \<open>GenerationError\<close> alone among them.
\<close>

datatype exn_class =
    GenerationError
  | ModerationError
  | APIError
  | APIConnectionError
  | APIRateLimitError
  | APIAuthenticationError
  | TimeoutException
  | ConnectError
  | OtherException
  | TypeError
  | KeyError
  | AttributeError

text \<open>
  In the gateway an exception is its class and its text \<open>str(e)\<close>, which the handlers of
  \<open>chat_completion\<close> and of \<open>generate_post_text\<close> search. The services above the gateway
  raise exceptions whose text nobody reads: there an exception is its class.
\<close>

datatype exn = Exn exn_class ustring

definition try_bind :: "'e + 'a \<Rightarrow> ('a \<Rightarrow> 'e + 'b) \<Rightarrow> 'e + 'b" where
  "try_bind r f = (case r of Inl e \<Rightarrow> Inl e | Inr x \<Rightarrow> f x)"

text \<open>
  The handler pair that closes every service method,
  \<open>except C: raise\<close> followed by \<open>except Exception as e: raise C(...)\<close>.
\<close>

definition service_handlers :: "exn_class \<Rightarrow> exn_class + 'a \<Rightarrow> exn_class + 'a" where
  "service_handlers c r =
     (case r of Inl e \<Rightarrow> (if e = c then Inl e else Inl c) | Inr x \<Rightarrow> Inr x)"

section \<open>Operations on Python values\<close>

text \<open>Truth value of an object, as \<open>if x:\<close> and \<open>not x\<close> take it.\<close>

fun truthy :: "pyval \<Rightarrow> bool" where
  "truthy PNone = False"
| "truthy (PBool b) = b"
| "truthy (PInt n) = (n \<noteq> 0)"
| "truthy (PFloat (Float m e)) = (m \<noteq> 0)"
| "truthy (PStr s) = (s \<noteq> [])"
| "truthy (PList xs) = (xs \<noteq> [])"
| "truthy (PDict d) = (d \<noteq> [])"

text \<open>\<open>isinstance(x, int)\<close>: \<open>bool\<close> is a subclass of \<open>int\<close>.\<close>

fun isinstance_int :: "pyval \<Rightarrow> bool" where
  "isinstance_int (PInt n) = True"
| "isinstance_int (PBool b) = True"
| "isinstance_int v = False"

fun isinstance_list :: "pyval \<Rightarrow> bool" where
  "isinstance_list (PList xs) = True"
| "isinstance_list v = False"

text \<open>
  \<open>key in obj\<close> for a string \<open>key\<close>: a key of a dict, an element of a list, a substring
  of a string; \<open>TypeError\<close> for an object that is no container.
\<close>

fun contains_key :: "ustring \<Rightarrow> pyval \<Rightarrow> exn_class + bool" where
  "contains_key key (PDict d) = Inr (dict_get d key \<noteq> None)"
| "contains_key key (PList xs) = Inr (List.member xs (PStr key))"
| "contains_key key (PStr s) = Inr (contains key s)"
| "contains_key key v = Inl TypeError"

text \<open>
  \<open>obj[key]\<close> for a string \<open>key\<close>: the value of a dict (\<open>KeyError\<close> when the key is
  missing); \<open>TypeError\<close> for every other object, also a list and a string, whose
  indices must be integers.
\<close>

fun subscript :: "pyval \<Rightarrow> ustring \<Rightarrow> exn_class + pyval" where
  "subscript (PDict d) key = (case dict_get d key of None \<Rightarrow> Inl KeyError | Some v \<Rightarrow> Inr v)"
| "subscript v key = Inl TypeError"

text \<open>\<open>obj[key] = value\<close> for a string \<open>key\<close>; the object after the store.\<close>

fun store :: "pyval \<Rightarrow> ustring \<Rightarrow> pyval \<Rightarrow> exn_class + pyval" where
  "store (PDict d) key value = Inr (PDict (dict_set key value d))"
| "store v key value = Inl TypeError"

text \<open>\<open>obj.get(key)\<close>: only a dict has the method.\<close>

fun get_method :: "pyval \<Rightarrow> ustring \<Rightarrow> exn_class + pyval" where
  "get_method (PDict d) key = (case dict_get d key of None \<Rightarrow> Inr PNone | Some v \<Rightarrow> Inr v)"
| "get_method v key = Inl AttributeError"

text \<open>\<open>isinstance(x, str)\<close>\<close>

fun isinstance_str :: "pyval \<Rightarrow> bool" where
  "isinstance_str (PStr s) = True"
| "isinstance_str v = False"

text \<open>\<open>len(obj)\<close> is defined for strings, lists and dicts.\<close>

fun has_len :: "pyval \<Rightarrow> bool" where
  "has_len (PStr s) = True"
| "has_len (PList xs) = True"
| "has_len (PDict d) = True"
| "has_len v = False"

text \<open>
  \<open>for field in required_fields: if field not in obj: raise C(...)\<close>, the loop that
  three services run; \<open>c\<close> is the class raised.
\<close>

fun check_fields :: "exn_class \<Rightarrow> ustring list \<Rightarrow> pyval \<Rightarrow> exn_class + unit" where
  "check_fields c [] obj = Inr ()"
| "check_fields c (field # others) obj =
     (case contains_key field obj of
        Inl e \<Rightarrow> Inl e
      | Inr present \<Rightarrow> if \<not> present then Inl c else check_fields c others obj)"

section \<open>The gateway: chat completion\<close>

text \<open>
  What \<open>client.chat.completions.create\<close> gives back: it raises, or it returns a
  \<open>ChatCompletion\<close>, of which the code reads the choices, and of the first choice the
  finish reason and the message's refusal and content.
\<close>

datatype chat_message = ChatMessage (refusal: "ustring option") (content: "ustring option")

datatype choice = Choice (finish_reason: "ustring option") (message: chat_message)

datatype chat_completion_result = Raises exn | Returns "choice list"

text \<open>Truth value of an \<open>Optional[str]\<close>: \<open>None\<close> and the empty string are false.\<close>

fun str_given :: "ustring option \<Rightarrow> bool" where
  "str_given None = False"
| "str_given (Some s) = (s \<noteq> [])"

text \<open>An \<open>Optional[str]\<close> inside an f-string.\<close>

fun format_optional :: "ustring option \<Rightarrow> ustring" where
  "format_optional None = u ''None''"
| "format_optional (Some s) = s"

text \<open>
  The texts of the exceptions \<open>chat_completion\<close> raises, in the order of the source:
  "API vernul pustoy otvet bez choices"; "Model' otkazala v generatsii kontenta: ";
  "API vernul pustoy kontent (finish_reason: "; "Prevysheno vremya ozhidaniya otveta ot
  API"; "Ne udalos' podklyuchit'sya k API. Prover'te internet-soedinenie"; "Prevyshen
  limit zaprosov k API. Poprobuyte pozzhe"; "Nevernyy API klyuch ili nedostatochno prav";
  "Oshibka API: ".
\<close>

definition text_no_choices :: ustring where
  "text_no_choices =
      [65, 80, 73, 32, 1074, 1077, 1088, 1085, 1091, 1083, 32, 1087, 1091, 1089, 1090,
       1086, 1081, 32, 1086, 1090, 1074, 1077, 1090, 32, 1073, 1077, 1079, 32, 99, 104,
       111, 105, 99, 101, 115]"

definition text_refused :: ustring where
  "text_refused =
      [1052, 1086, 1076, 1077, 1083, 1100, 32, 1086, 1090, 1082, 1072, 1079, 1072, 1083,
       1072, 32, 1074, 32, 1075, 1077, 1085, 1077, 1088, 1072, 1094, 1080, 1080, 32, 1082,
       1086, 1085, 1090, 1077, 1085, 1090, 1072, 58, 32]"

definition text_empty_content :: ustring where
  "text_empty_content =
      [65, 80, 73, 32, 1074, 1077, 1088, 1085, 1091, 1083, 32, 1087, 1091, 1089, 1090,
       1086, 1081, 32, 1082, 1086, 1085, 1090, 1077, 1085, 1090, 32, 40, 102, 105, 110,
       105, 115, 104, 95, 114, 101, 97, 115, 111, 110, 58, 32]"

definition text_timeout :: ustring where
  "text_timeout =
      [1055, 1088, 1077, 1074, 1099, 1096, 1077, 1085, 1086, 32, 1074, 1088, 1077, 1084,
       1103, 32, 1086, 1078, 1080, 1076, 1072, 1085, 1080, 1103, 32, 1086, 1090, 1074,
       1077, 1090, 1072, 32, 1086, 1090, 32, 65, 80, 73]"

definition text_connect :: ustring where
  "text_connect =
      [1053, 1077, 32, 1091, 1076, 1072, 1083, 1086, 1089, 1100, 32, 1087, 1086, 1076,
       1082, 1083, 1102, 1095, 1080, 1090, 1100, 1089, 1103, 32, 1082, 32, 65, 80, 73, 46,
       32, 1055, 1088, 1086, 1074, 1077, 1088, 1100, 1090, 1077, 32, 1080, 1085, 1090,
       1077, 1088, 1085, 1077, 1090, 45, 1089, 1086, 1077, 1076, 1080, 1085, 1077, 1085,
       1080, 1077]"

definition text_rate_limit :: ustring where
  "text_rate_limit =
      [1055, 1088, 1077, 1074, 1099, 1096, 1077, 1085, 32, 1083, 1080, 1084, 1080, 1090,
       32, 1079, 1072, 1087, 1088, 1086, 1089, 1086, 1074, 32, 1082, 32, 65, 80, 73, 46,
       32, 1055, 1086, 1087, 1088, 1086, 1073, 1091, 1081, 1090, 1077, 32, 1087, 1086,
       1079, 1078, 1077]"

definition text_authentication :: ustring where
  "text_authentication =
      [1053, 1077, 1074, 1077, 1088, 1085, 1099, 1081, 32, 65, 80, 73, 32, 1082, 1083,
       1102, 1095, 32, 1080, 1083, 1080, 32, 1085, 1077, 1076, 1086, 1089, 1090, 1072,
       1090, 1086, 1095, 1085, 1086, 32, 1087, 1088, 1072, 1074]"

definition text_api_error :: ustring where
  "text_api_error =
      [1054, 1096, 1080, 1073, 1082, 1072, 32, 65, 80, 73, 58, 32]"

text \<open>
  The body of the \<open>try\<close> after the request has returned: the three
  \<open>raise GenerationError\<close> statements and \<open>return content\<close>.
\<close>

definition extract_content :: "choice list \<Rightarrow> exn + ustring" where
  "extract_content choices =
     (case choices of
        [] \<Rightarrow> Inl (Exn GenerationError text_no_choices)
      | choice # _ \<Rightarrow>
          if str_given (refusal (message choice))
          then Inl (Exn GenerationError (text_refused @ the (refusal (message choice))))
          else if \<not> str_given (content (message choice))
          then Inl (Exn GenerationError
                 (text_empty_content @ format_optional (finish_reason choice) @ u '')''))
          else Inr (the (content (message choice))))"

text \<open>
  The three \<open>except\<close> clauses of \<open>chat_completion\<close>, which stand around the whole body:
  \<open>httpx.TimeoutException\<close>, \<open>httpx.ConnectError\<close>, and \<open>Exception\<close>, which is every
  other exception raised inside the \<open>try\<close>.
\<close>

fun chat_completion_handlers :: "exn \<Rightarrow> exn" where
  "chat_completion_handlers (Exn c text) =
     (if c = TimeoutException then Exn APIConnectionError text_timeout
      else if c = ConnectError then Exn APIConnectionError text_connect
      else
        (let error_message = lower text
         in if contains (u ''429'') error_message \<or> contains (u ''rate limit'') error_message
            then Exn APIRateLimitError text_rate_limit
            else if contains (u ''401'') error_message \<or> contains (u ''unauthorized'') error_message
                    \<or> contains (u ''api key'') error_message
            then Exn APIAuthenticationError text_authentication
            else Exn APIError (text_api_error @ text)))"

text \<open>
  \<open>ProxyAPIClient.chat_completion\<close>. \<open>create\<close> is the remote call
  \<open>client.chat.completions.create\<close>, a function of the request it is given.
\<close>

definition chat_completion ::
  "((ustring \<times> pyval) list \<Rightarrow> chat_completion_result) \<Rightarrow> pyval \<Rightarrow> ustring \<Rightarrow> pyfloat
     \<Rightarrow> int option \<Rightarrow> bool \<Rightarrow> (ustring \<times> pyval) list \<Rightarrow> exn + ustring" where
  "chat_completion create messages model temperature max_tokens json_mode kwargs =
     (let params = chat_completion_params messages model temperature max_tokens json_mode kwargs
      in case create params of
           Raises e \<Rightarrow> Inl (chat_completion_handlers e)
         | Returns choices \<Rightarrow>
             (case extract_content choices of
                Inl e \<Rightarrow> Inl (chat_completion_handlers e)
              | Inr returned \<Rightarrow> Inr returned))"

section \<open>Settings and environment of the services\<close>

text \<open>The fields of \<open>Settings\<close> the modelled services read.\<close>

record settings =
  model_text_generation :: ustring
  model_final_post :: ustring
  temperature_ideas :: pyfloat
  temperature_post :: pyfloat
  temperature_moderation :: pyfloat
  max_tokens_ideas :: int
  max_tokens_post :: int
  max_off_topic_attempts :: int

text \<open>
  What the services call from outside the modelled code: the remote call
  \<open>create\<close> behind \<open>chat_completion\<close>; \<open>json.loads\<close>, with \<open>None\<close> for
  \<open>JSONDecodeError\<close>; and the message lists \<open>PromptBuilder\<close> builds from the prompt
  templates of \<open>PromptTemplates\<close>, one function for each of the three prompts.
\<close>

record env =
  create :: "(ustring \<times> pyval) list \<Rightarrow> chat_completion_result"
  json_loads :: "ustring \<Rightarrow> pyval option"
  moderation_messages :: "ustring \<Rightarrow> ustring \<Rightarrow> ustring \<Rightarrow> pyval"
  ideas_messages :: "ustring \<Rightarrow> ustring \<Rightarrow> ustring \<Rightarrow> pyval"
  post_messages :: "ustring \<Rightarrow> ustring \<Rightarrow> ustring \<Rightarrow> pyval \<Rightarrow> pyval \<Rightarrow> pyval \<Rightarrow> pyval"

text \<open>A service sees the class of an exception of the gateway.\<close>

fun class_of :: "exn + 'a \<Rightarrow> exn_class + 'a" where
  "class_of (Inl (Exn c text)) = Inl c"
| "class_of (Inr x) = Inr x"

section \<open>The moderation service\<close>

text \<open>The request of \<open>ModerationService.check_relevance\<close>.\<close>

definition request_relevance :: "env \<Rightarrow> settings \<Rightarrow> ustring \<Rightarrow> ustring \<Rightarrow> ustring \<Rightarrow> exn + ustring" where
  "request_relevance E S current_step bot_question user_response =
     chat_completion (create E) (moderation_messages E current_step bot_question user_response)
       (model_text_generation S) (temperature_moderation S) (Some 200) True []"

text \<open>
  \<open>ModerationService.check_relevance\<close>. After the validation loop the method reads
  \<open>result["is_relevant"]\<close> and \<open>result['reason']\<close> for its log line.
\<close>

definition check_relevance :: "env \<Rightarrow> settings \<Rightarrow> ustring \<Rightarrow> ustring \<Rightarrow> ustring \<Rightarrow> exn_class + pyval" where
  "check_relevance E S current_step bot_question user_response =
     service_handlers ModerationError
       (try_bind (class_of (request_relevance E S current_step bot_question user_response))
          (\<lambda>response.
             case json_loads E response of
               None \<Rightarrow> Inl ModerationError
             | Some result \<Rightarrow>
                 try_bind (check_fields ModerationError
                             [u ''is_relevant'', u ''reason'', u ''suggestion''] result)
                   (\<lambda>_. try_bind (subscript result (u ''is_relevant''))
                     (\<lambda>is_relevant. try_bind (subscript result (u ''reason''))
                       (\<lambda>reason. Inr result)))))"

text \<open>
  The texts the modelled handlers send, each named by the statement that produces it:
  the two profanity replies of \<open>check_and_moderate\<close>; the five results of
  \<open>get_redirection_message\<close>, of which the first is the classifier's own suggestion,
  whatever object that is, and the next three end with the bot's question; and the next
  questions of \<open>handle_niche\<close> and \<open>handle_goal\<close>, f-strings around the reformulated
  answer.
\<close>

datatype reply_text =
    Respect_request
  | Offence_farewell
  | Suggestion_text pyval
  | Focus_text ustring
  | Firm_text ustring
  | Distracted_text ustring
  | Farewell_text
  | Ask_goal ustring
  | Ask_format ustring

definition get_redirection_message :: "int \<Rightarrow> ustring \<Rightarrow> pyval \<Rightarrow> reply_text" where
  "get_redirection_message attempt_number bot_question suggestion =
     (if attempt_number = 1
      then (if truthy suggestion then Suggestion_text suggestion else Focus_text bot_question)
      else if attempt_number = 2 then Firm_text bot_question
      else if attempt_number = 3 then Distracted_text bot_question
      else Farewell_text)"

definition should_end_conversation :: "settings \<Rightarrow> int \<Rightarrow> bool" where
  "should_end_conversation S attempt_number = (attempt_number > max_off_topic_attempts S)"

text \<open>\<open>offensive_patterns\<close> of \<open>detect_offensive_content\<close>, eleven Russian word stems.\<close>

definition offensive_patterns :: "ustring list" where
  "offensive_patterns =
     [[1073, 1083, 1103, 1090, 1100],
      [1073, 1083, 1103],
      [1093, 1091, 1081],
      [1087, 1080, 1079, 1076],
      [1077, 1073, 1072, 1090, 1100],
      [1077, 1073, 1072],
      [1089, 1091, 1082, 1072],
      [1087, 1080, 1076, 1086, 1088],
      [1084, 1091, 1076, 1072, 1082],
      [1076, 1086, 1083, 1073, 1086, 1077, 1073],
      [1091, 1077, 1073, 1086, 1082]]"

definition detect_offensive_content :: "ustring \<Rightarrow> bool" where
  "detect_offensive_content text =
     (let text_lower = lower text
      in list_ex (\<lambda>pattern. contains pattern text_lower) offensive_patterns)"

section \<open>The session and its moderation gate\<close>

datatype dialog_state =
    INITIAL
  | COLLECTING_NICHE
  | COLLECTING_GOAL
  | COLLECTING_FORMAT
  | GENERATING_IDEAS
  | WAITING_IDEA_CHOICE
  | ASKING_IMAGE
  | GENERATING_POST
  | COMPLETED

text \<open>
  The keys of the data dictionary are the keyword names the handlers pass to
  \<open>state.update_data\<close>, eleven in all: \<open>off_topic_count\<close> and the ten of \<open>data_key\<close>.
\<close>

datatype data_key =
    Niche
  | Goal
  | Format_type
  | Format_formatted
  | Ideas
  | Selected_idea
  | Need_image
  | Last_buttons_message_id
  | User_id
  | Username

text \<open>
  The \<open>FSMContext\<close> of a user: the current state (\<open>None\<close> when there is none) and the
  data dictionary. The key \<open>off_topic_count\<close>, under which the handlers only ever
  store integers, is a field of its own, \<open>None\<close> while the key is absent; the other
  keys, with their values, are in \<open>other_data\<close>.
\<close>

record fsm =
  current_state :: "dialog_state option"
  off_topic_count :: "int option"
  other_data :: "(data_key \<times> pyval) list"

text \<open>\<open>data.get("off_topic_count", 0)\<close>\<close>

definition get_off_topic_count :: "fsm \<Rightarrow> int" where
  "get_off_topic_count st = (case off_topic_count st of None \<Rightarrow> 0 | Some n \<Rightarrow> n)"

text \<open>\<open>state.update_data(off_topic_count=n)\<close>\<close>

definition update_off_topic_count :: "int \<Rightarrow> fsm \<Rightarrow> fsm" where
  "update_off_topic_count n st = st\<lparr>off_topic_count := Some n\<rparr>"

text \<open>
  \<open>state.update_data(key=value)\<close> for each of the other ten keys, and
  \<open>state.set_state(s)\<close>.
\<close>

definition update_data :: "data_key \<Rightarrow> pyval \<Rightarrow> fsm \<Rightarrow> fsm" where
  "update_data key value st = st\<lparr>other_data := dict_set key value (other_data st)\<rparr>"

definition set_state :: "dialog_state \<Rightarrow> fsm \<Rightarrow> fsm" where
  "set_state s st = st\<lparr>current_state := Some s\<rparr>"

text \<open>\<open>state.clear()\<close> drops the state and all data.\<close>

definition clear :: "fsm \<Rightarrow> fsm" where
  "clear st = \<lparr>current_state = None, off_topic_count = None, other_data = []\<rparr>"

text \<open>
  The session \<open>cmd_start\<close> leaves behind: cleared, then in \<open>COLLECTING_NICHE\<close> with
  \<open>off_topic_count=0\<close>, \<open>user_id\<close> and \<open>username\<close>.
\<close>

definition started :: "pyval \<Rightarrow> pyval \<Rightarrow> fsm" where
  "started user_id username =
     update_data Username username
       (update_data User_id user_id
          (update_off_topic_count 0
             (set_state COLLECTING_NICHE
                (clear \<lparr>current_state = None, off_topic_count = None, other_data = []\<rparr>))))"

text \<open>How a reply leaves: \<open>message.answer\<close> or \<open>send_with_typing\<close>.\<close>

datatype reply = Answer reply_text | Send_with_typing reply_text

text \<open>
  \<open>send_with_typing\<close> as the handlers call it, without a typing duration: it takes
  \<open>len(text)\<close> first, which raises \<open>TypeError\<close> for an object that has no length, and
  hands the text to \<open>bot.send_message\<close> last, which takes a string and refuses a list or
  a dict (an exception of the Telegram client, \<open>OtherException\<close>). Among the texts
  only the classifier's suggestion can be something else than a string.
\<close>

fun send_with_typing :: "reply_text \<Rightarrow> exn_class + reply list" where
  "send_with_typing (Suggestion_text (PStr s)) = Inr [Send_with_typing (Suggestion_text (PStr s))]"
| "send_with_typing (Suggestion_text v) = (if has_len v then Inl OtherException else Inl TypeError)"
| "send_with_typing t = Inr [Send_with_typing t]"

text \<open>
  \<open>check_and_moderate\<close>. The result is what the coroutine returns or the exception
  that leaves it (\<open>except ModerationError\<close> is its only handler), the session
  afterwards, and the replies sent.
\<close>

definition check_and_moderate ::
  "env \<Rightarrow> settings \<Rightarrow> ustring \<Rightarrow> fsm \<Rightarrow> ustring \<Rightarrow> ustring
     \<Rightarrow> (exn_class + bool) \<times> fsm \<times> reply list" where
  "check_and_moderate E S user_response st current_step bot_question =
     (let count0 = get_off_topic_count st
      in if detect_offensive_content user_response
         then
           (let count1 = count0 + 1;
                st1 = update_off_topic_count count1 st
            in if count1 = 1
               then (Inr False, st1, [Answer Respect_request])
               else (Inr False, clear st1, [Answer Offence_farewell]))
         else
           (case check_relevance E S current_step bot_question user_response of
              Inl e \<Rightarrow> (if e = ModerationError then (Inr True, st, []) else (Inl e, st, []))
            | Inr result \<Rightarrow>
                (case subscript result (u ''is_relevant'') of
                   Inl e \<Rightarrow> (Inl e, st, [])
                 | Inr is_relevant \<Rightarrow>
                     if truthy is_relevant
                     then (Inr True, update_off_topic_count 0 st, [])
                     else
                       (let count1 = count0 + 1;
                            st1 = update_off_topic_count count1 st
                        in if should_end_conversation S count1
                           then (Inr False, clear st1,
                                 [Answer (get_redirection_message count1 bot_question PNone)])
                           else
                             (case get_method result (u ''suggestion'') of
                                Inl e \<Rightarrow> (Inl e, st1, [])
                              | Inr suggestion \<Rightarrow>
                                  (case send_with_typing
                                          (get_redirection_message count1 bot_question suggestion) of
                                     Inl e \<Rightarrow> (Inl e, st1, [])
                                   | Inr sent \<Rightarrow> (Inr False, st1, sent)))))))"

section \<open>The handlers of the moderated steps\<close>

text \<open>
  \<open>STATE_QUESTIONS\<close> and \<open>get_state_question\<close> of \<open>bot/states.py\<close>: "Kakaya u tebya nisha
  ili tematika kontenta?", "Kakaya glavnaya tsel' tvoego kontenta?", "V kakom formate ty
  khochesh' sozdat' kontent?", and the empty string for any other state name.
\<close>

definition question_niche :: ustring where
  "question_niche =
      [1050, 1072, 1082, 1072, 1103, 32, 1091, 32, 1090, 1077, 1073, 1103, 32, 1085, 1080,
       1096, 1072, 32, 1080, 1083, 1080, 32, 1090, 1077, 1084, 1072, 1090, 1080, 1082,
       1072, 32, 1082, 1086, 1085, 1090, 1077, 1085, 1090, 1072, 63]"

definition question_goal :: ustring where
  "question_goal =
      [1050, 1072, 1082, 1072, 1103, 32, 1075, 1083, 1072, 1074, 1085, 1072, 1103, 32,
       1094, 1077, 1083, 1100, 32, 1090, 1074, 1086, 1077, 1075, 1086, 32, 1082, 1086,
       1085, 1090, 1077, 1085, 1090, 1072, 63]"

definition question_format :: ustring where
  "question_format =
      [1042, 32, 1082, 1072, 1082, 1086, 1084, 32, 1092, 1086, 1088, 1084, 1072, 1090,
       1077, 32, 1090, 1099, 32, 1093, 1086, 1095, 1077, 1096, 1100, 32, 1089, 1086, 1079,
       1076, 1072, 1090, 1100, 32, 1082, 1086, 1085, 1090, 1077, 1085, 1090, 63]"

definition get_state_question :: "ustring \<Rightarrow> ustring" where
  "get_state_question state =
     (if state = u ''COLLECTING_NICHE'' then question_niche
      else if state = u ''COLLECTING_GOAL'' then question_goal
      else if state = u ''COLLECTING_FORMAT'' then question_format
      else [])"

text \<open>
  \<open>str.strip()\<close> removes the white space of both ends, the code points for which
  \<open>str.isspace\<close> holds; \<open>str.strip(chars)\<close> removes the given characters.
\<close>

definition whitespace :: "nat list" where
  "whitespace =
     [9, 10, 11, 12, 13, 28, 29, 30, 31, 32, 133, 160, 5760, 8192, 8193, 8194, 8195, 8196,
      8197, 8198, 8199, 8200, 8201, 8202, 8232, 8233, 8239, 8287, 12288]"

definition strip_chars :: "nat list \<Rightarrow> ustring \<Rightarrow> ustring" where
  "strip_chars chars s =
     rev (dropWhile (\<lambda>c. c \<in> set chars) (rev (dropWhile (\<lambda>c. c \<in> set chars) s)))"

definition strip :: "ustring \<Rightarrow> ustring" where
  "strip s = strip_chars whitespace s"

text \<open>
  The three prompts of \<open>reformulate_user_input\<close>, each an f-string with the user's
  text between a head and a tail: "Pereformuliruy tekst pol'zovatelya ...", "Pereformuliruy
  tsel' pol'zovatelya ...", "Pereformuliruy format kontenta ...".
\<close>

definition prompt_niche_head :: ustring where
  "prompt_niche_head =
      [1055, 1077, 1088, 1077, 1092, 1086, 1088, 1084, 1091, 1083, 1080, 1088, 1091, 1081,
       32, 1090, 1077, 1082, 1089, 1090, 32, 1087, 1086, 1083, 1100, 1079, 1086, 1074,
       1072, 1090, 1077, 1083, 1103, 32, 1074, 32, 1075, 1088, 1072, 1084, 1086, 1090,
       1085, 1091, 1102, 32, 1092, 1086, 1088, 1084, 1091, 32, 1076, 1083, 1103, 32, 1086,
       1087, 1080, 1089, 1072, 1085, 1080, 1103, 32, 1085, 1080, 1096, 1080, 47, 1090,
       1077, 1084, 1099, 46, 10, 10, 1055, 1086, 1083, 1100, 1079, 1086, 1074, 1072, 1090,
       1077, 1083, 1100, 32, 1085, 1072, 1087, 1080, 1089, 1072, 1083, 58, 32, 34]"

definition prompt_niche_tail :: ustring where
  "prompt_niche_tail =
      [34, 10, 10, 1055, 1088, 1072, 1074, 1080, 1083, 1072, 58, 10, 45, 32, 1045, 1089,
       1083, 1080, 32, 1085, 1072, 1087, 1080, 1089, 1072, 1085, 1086, 32, 1082, 1072,
       1082, 32, 1076, 1077, 1081, 1089, 1090, 1074, 1080, 1077, 32, 40, 34, 1103, 32,
       1093, 1083, 1077, 1073, 32, 1087, 1077, 1082, 1091, 34, 44, 32, 34, 1076, 1077,
       1083, 1072, 1102, 32, 1084, 1077, 1073, 1077, 1083, 1100, 34, 41, 44, 32, 1087,
       1088, 1077, 1086, 1073, 1088, 1072, 1079, 1091, 1081, 32, 1074, 32, 1089, 1091,
       1097, 1077, 1089, 1090, 1074, 1080, 1090, 1077, 1083, 1100, 1085, 1086, 1077, 32,
       40, 34, 1042, 1099, 1087, 1077, 1095, 1082, 1072, 32, 1093, 1083, 1077, 1073, 1072,
       34, 44, 32, 34, 1048, 1079, 1075, 1086, 1090, 1086, 1074, 1083, 1077, 1085, 1080,
       1077, 32, 1084, 1077, 1073, 1077, 1083, 1080, 34, 41, 10, 45, 32, 1045, 1089, 1083,
       1080, 32, 1085, 1072, 1087, 1080, 1089, 1072, 1085, 1086, 32, 1085, 1077, 1082,
       1086, 1088, 1088, 1077, 1082, 1090, 1085, 1086, 32, 40, 34, 1089, 1086, 1073, 1080,
       1088, 1072, 1102, 32, 1084, 1072, 1096, 1080, 1085, 1099, 34, 41, 44, 32, 1089,
       1076, 1077, 1083, 1072, 1081, 32, 1075, 1088, 1072, 1084, 1086, 1090, 1085, 1086,
       32, 40, 34, 1057, 1073, 1086, 1088, 1082, 1072, 32, 1072, 1074, 1090, 1086, 1084,
       1086, 1073, 1080, 1083, 1077, 1081, 34, 41, 10, 45, 32, 1057, 1086, 1093, 1088,
       1072, 1085, 1080, 32, 1089, 1084, 1099, 1089, 1083, 44, 32, 1085, 1086, 32, 1089,
       1076, 1077, 1083, 1072, 1081, 32, 1092, 1086, 1088, 1084, 1091, 1083, 1080, 1088,
       1086, 1074, 1082, 1091, 32, 1087, 1088, 1086, 1092, 1077, 1089, 1089, 1080, 1086,
       1085, 1072, 1083, 1100, 1085, 1086, 1081, 10, 45, 32, 1052, 1072, 1082, 1089, 1080,
       1084, 1091, 1084, 32, 51, 45, 53, 32, 1089, 1083, 1086, 1074, 10, 45, 32, 1058,
       1086, 1083, 1100, 1082, 1086, 32, 1089, 1091, 1090, 1100, 44, 32, 1073, 1077, 1079,
       32, 1083, 1080, 1096, 1085, 1080, 1093, 32, 1089, 1083, 1086, 1074, 10, 10, 1054,
       1090, 1074, 1077, 1090, 1100, 32, 1058, 1054, 1051, 1068, 1050, 1054, 32, 1087,
       1077, 1088, 1077, 1092, 1086, 1088, 1084, 1091, 1083, 1080, 1088, 1086, 1074, 1072,
       1085, 1085, 1099, 1084, 32, 1090, 1077, 1082, 1089, 1090, 1086, 1084, 44, 32, 1073,
       1077, 1079, 32, 1086, 1073, 1098, 1103, 1089, 1085, 1077, 1085, 1080, 1081, 46]"

definition prompt_goal_head :: ustring where
  "prompt_goal_head =
      [1055, 1077, 1088, 1077, 1092, 1086, 1088, 1084, 1091, 1083, 1080, 1088, 1091, 1081,
       32, 1094, 1077, 1083, 1100, 32, 1087, 1086, 1083, 1100, 1079, 1086, 1074, 1072,
       1090, 1077, 1083, 1103, 32, 1074, 32, 1075, 1088, 1072, 1084, 1086, 1090, 1085,
       1091, 1102, 32, 1092, 1086, 1088, 1084, 1091, 46, 10, 10, 1055, 1086, 1083, 1100,
       1079, 1086, 1074, 1072, 1090, 1077, 1083, 1100, 32, 1085, 1072, 1087, 1080, 1089,
       1072, 1083, 58, 32, 34]"

definition prompt_goal_tail :: ustring where
  "prompt_goal_tail =
      [34, 10, 10, 1055, 1088, 1072, 1074, 1080, 1083, 1072, 58, 10, 45, 32, 1055, 1088,
       1077, 1086, 1073, 1088, 1072, 1079, 1091, 1081, 32, 1074, 32, 1080, 1085, 1092,
       1080, 1085, 1080, 1090, 1080, 1074, 32, 1077, 1089, 1083, 1080, 32, 1085, 1091,
       1078, 1085, 1086, 32, 40, 34, 1093, 1086, 1095, 1091, 32, 1082, 1083, 1080, 1077,
       1085, 1090, 1086, 1074, 34, 32, 8594, 32, 34, 1055, 1088, 1080, 1074, 1083, 1077,
       1095, 1077, 1085, 1080, 1077, 32, 1082, 1083, 1080, 1077, 1085, 1090, 1086, 1074,
       34, 41, 10, 45, 32, 1057, 1076, 1077, 1083, 1072, 1081, 32, 1092, 1086, 1088, 1084,
       1091, 1083, 1080, 1088, 1086, 1074, 1082, 1091, 32, 1095, 1077, 1090, 1082, 1086,
       1081, 32, 1080, 32, 1087, 1088, 1086, 1092, 1077, 1089, 1089, 1080, 1086, 1085,
       1072, 1083, 1100, 1085, 1086, 1081, 32, 32, 10, 45, 32, 1057, 1086, 1093, 1088,
       1072, 1085, 1080, 32, 1089, 1084, 1099, 1089, 1083, 10, 45, 32, 1052, 1072, 1082,
       1089, 1080, 1084, 1091, 1084, 32, 53, 45, 55, 32, 1089, 1083, 1086, 1074, 10, 10,
       1054, 1090, 1074, 1077, 1090, 1100, 32, 1058, 1054, 1051, 1068, 1050, 1054, 32,
       1087, 1077, 1088, 1077, 1092, 1086, 1088, 1084, 1091, 1083, 1080, 1088, 1086, 1074,
       1072, 1085, 1085, 1099, 1084, 32, 1090, 1077, 1082, 1089, 1090, 1086, 1084, 44, 32,
       1073, 1077, 1079, 32, 1086, 1073, 1098, 1103, 1089, 1085, 1077, 1085, 1080, 1081,
       46]"

definition prompt_format_head :: ustring where
  "prompt_format_head =
      [1055, 1077, 1088, 1077, 1092, 1086, 1088, 1084, 1091, 1083, 1080, 1088, 1091, 1081,
       32, 1092, 1086, 1088, 1084, 1072, 1090, 32, 1082, 1086, 1085, 1090, 1077, 1085,
       1090, 1072, 32, 1074, 32, 1075, 1088, 1072, 1084, 1086, 1090, 1085, 1091, 1102, 32,
       1092, 1086, 1088, 1084, 1091, 46, 10, 10, 1055, 1086, 1083, 1100, 1079, 1086, 1074,
       1072, 1090, 1077, 1083, 1100, 32, 1085, 1072, 1087, 1080, 1089, 1072, 1083, 58, 32,
       34]"

definition prompt_format_tail :: ustring where
  "prompt_format_tail =
      [34, 10, 10, 1055, 1088, 1072, 1074, 1080, 1083, 1072, 58, 10, 45, 32, 1057, 1076,
       1077, 1083, 1072, 1081, 32, 1092, 1086, 1088, 1084, 1091, 1083, 1080, 1088, 1086,
       1074, 1082, 1091, 32, 1095, 1077, 1090, 1082, 1086, 1081, 32, 40, 34, 1087, 1086,
       1089, 1090, 32, 1080, 1085, 1089, 1090, 1077, 34, 32, 8594, 32, 34, 1055, 1086,
       1089, 1090, 32, 1076, 1083, 1103, 32, 73, 110, 115, 116, 97, 103, 114, 97, 109, 34,
       41, 10, 45, 32, 1057, 1086, 1093, 1088, 1072, 1085, 1080, 32, 1089, 1084, 1099,
       1089, 1083, 10, 45, 32, 1052, 1072, 1082, 1089, 1080, 1084, 1091, 1084, 32, 53, 45,
       55, 32, 1089, 1083, 1086, 1074, 10, 10, 1054, 1090, 1074, 1077, 1090, 1100, 32,
       1058, 1054, 1051, 1068, 1050, 1054, 32, 1087, 1077, 1088, 1077, 1092, 1086, 1088,
       1084, 1091, 1083, 1080, 1088, 1086, 1074, 1072, 1085, 1085, 1099, 1084, 32, 1090,
       1077, 1082, 1089, 1090, 1086, 1084, 44, 32, 1073, 1077, 1079, 32, 1086, 1073, 1098,
       1103, 1089, 1085, 1077, 1085, 1080, 1081, 46]"

text \<open>
  \<open>reformulate_user_input\<close>: one request to \<open>gpt-4o-mini\<close>, whose reply is stripped of
  white space, then of double quotes, then of single quotes; the user's text itself for
  an unknown context and whenever the request raises.
\<close>

definition reformulate_user_input :: "env \<Rightarrow> ustring \<Rightarrow> ustring \<Rightarrow> ustring" where
  "reformulate_user_input E user_text context =
     (if context = u ''niche'' \<or> context = u ''goal'' \<or> context = u ''format''
      then
        (let prompt =
               (if context = u ''niche'' then prompt_niche_head @ user_text @ prompt_niche_tail
                else if context = u ''goal'' then prompt_goal_head @ user_text @ prompt_goal_tail
                else prompt_format_head @ user_text @ prompt_format_tail)
         in case chat_completion (create E)
                   (PList [PDict [(u ''role'', PStr (u ''user'')), (u ''content'', PStr prompt)]])
                   (u ''gpt-4o-mini'') (Float 3 (- 1)) (Some 50) False [] of
              Inl e \<Rightarrow> user_text
            | Inr response \<Rightarrow> strip_chars [39] (strip_chars [34] (strip response)))
      else user_text)"

text \<open>
  \<open>handle_niche\<close> and \<open>handle_goal\<close>: the moderation gate, and for an utterance that
  passed it the stripped text stored, the next question sent and the next state set.
  The result is the exception that leaves the handler, if any, the session afterwards
  and the replies sent. (\<open>handle_format\<close> opens with the same gate, at the step
  \<open>COLLECTING_FORMAT\<close>.)
\<close>

definition handle_niche ::
  "env \<Rightarrow> settings \<Rightarrow> ustring \<Rightarrow> fsm \<Rightarrow> (exn_class + unit) \<times> fsm \<times> reply list" where
  "handle_niche E S text st =
     (case check_and_moderate E S text st (u ''COLLECTING_NICHE'')
             (get_state_question (u ''COLLECTING_NICHE'')) of
        (Inl e, st1, replies) \<Rightarrow> (Inl e, st1, replies)
      | (Inr relevant, st1, replies) \<Rightarrow>
          if \<not> relevant then (Inr (), st1, replies)
          else
            (let niche_original = strip text;
                 niche_formatted = reformulate_user_input E niche_original (u ''niche'');
                 st2 = update_data Niche (PStr niche_original) st1
             in case send_with_typing (Ask_goal niche_formatted) of
                  Inl e \<Rightarrow> (Inl e, st2, replies)
                | Inr sent \<Rightarrow> (Inr (), set_state COLLECTING_GOAL st2, replies @ sent)))"

definition handle_goal ::
  "env \<Rightarrow> settings \<Rightarrow> ustring \<Rightarrow> fsm \<Rightarrow> (exn_class + unit) \<times> fsm \<times> reply list" where
  "handle_goal E S text st =
     (case check_and_moderate E S text st (u ''COLLECTING_GOAL'')
             (get_state_question (u ''COLLECTING_GOAL'')) of
        (Inl e, st1, replies) \<Rightarrow> (Inl e, st1, replies)
      | (Inr relevant, st1, replies) \<Rightarrow>
          if \<not> relevant then (Inr (), st1, replies)
          else
            (let goal_original = strip text;
                 goal_formatted = reformulate_user_input E goal_original (u ''goal'');
                 st2 = update_data Goal (PStr goal_original) st1
             in case send_with_typing (Ask_format goal_formatted) of
                  Inl e \<Rightarrow> (Inl e, st2, replies)
                | Inr sent \<Rightarrow> (Inr (), set_state COLLECTING_FORMAT st2, replies @ sent)))"

section \<open>The idea generator\<close>

definition required_fields :: "ustring list" where
  "required_fields = [u ''id'', u ''title'', u ''description'', u ''key_elements'']"

text \<open>
  \<open>IdeaGenerator.validate_idea\<close>: its loop returns \<open>False\<close> at the first field that
  is missing.
\<close>

fun fields_present :: "ustring list \<Rightarrow> pyval \<Rightarrow> exn_class + bool" where
  "fields_present [] obj = Inr True"
| "fields_present (field # others) obj =
     (case contains_key field obj of
        Inl e \<Rightarrow> Inl e
      | Inr present \<Rightarrow> if \<not> present then Inr False else fields_present others obj)"

definition validate_idea :: "pyval \<Rightarrow> exn_class + bool" where
  "validate_idea idea =
     try_bind (fields_present required_fields idea)
       (\<lambda>complete.
          if \<not> complete then Inr False
          else try_bind (subscript idea (u ''key_elements''))
            (\<lambda>key_elements. if \<not> isinstance_list key_elements then Inr False else Inr True))"

text \<open>The request of \<open>IdeaGenerator.generate_ideas\<close>.\<close>

definition request_ideas :: "env \<Rightarrow> settings \<Rightarrow> ustring \<Rightarrow> ustring \<Rightarrow> ustring \<Rightarrow> exn + ustring" where
  "request_ideas E S niche goal format_type =
     chat_completion (create E) (ideas_messages E niche goal format_type)
       (model_text_generation S) (temperature_ideas S) (Some (max_tokens_ideas S)) True []"

text \<open>
  The body of the loop \<open>for i, idea in enumerate(ideas[:5], 1)\<close>; it returns the idea
  as the loop leaves it, since \<open>idea["id"] = i\<close> changes the dict inside the list.
\<close>

definition idea_loop_body :: "nat \<Rightarrow> pyval \<Rightarrow> exn_class + pyval" where
  "idea_loop_body i idea =
     try_bind (check_fields GenerationError required_fields idea)
       (\<lambda>_. try_bind (subscript idea (u ''id''))
         (\<lambda>id_value. try_bind (if \<not> isinstance_int id_value
                                then store idea (u ''id'') (PInt (int i))
                                else Inr idea)
           (\<lambda>idea1. try_bind (subscript idea1 (u ''key_elements''))
             (\<lambda>key_elements. if \<not> isinstance_list key_elements
                               then Inl GenerationError
                               else Inr idea1))))"

fun idea_loop :: "nat \<Rightarrow> pyval list \<Rightarrow> exn_class + pyval list" where
  "idea_loop i [] = Inr []"
| "idea_loop i (idea # ideas) =
     try_bind (idea_loop_body i idea)
       (\<lambda>idea1. try_bind (idea_loop (Suc i) ideas) (\<lambda>ideas1. Inr (idea1 # ideas1)))"

text \<open>
  \<open>IdeaGenerator.generate_ideas\<close>. The loop runs over \<open>ideas[:5]\<close>, whose dicts are
  those of \<open>ideas\<close>, so the final \<open>ideas[:5]\<close> is the list the loop leaves.
\<close>

definition generate_ideas :: "env \<Rightarrow> settings \<Rightarrow> ustring \<Rightarrow> ustring \<Rightarrow> ustring \<Rightarrow> exn_class + pyval list" where
  "generate_ideas E S niche goal format_type =
     service_handlers GenerationError
       (try_bind (class_of (request_ideas E S niche goal format_type))
          (\<lambda>response.
             case json_loads E response of
               None \<Rightarrow> Inl GenerationError
             | Some result \<Rightarrow>
                 try_bind (contains_key (u ''ideas'') result)
                   (\<lambda>present.
                      if \<not> present then Inl GenerationError
                      else try_bind (subscript result (u ''ideas''))
                        (\<lambda>ideas.
                           case ideas of
                             PList xs \<Rightarrow>
                               if length xs \<noteq> 5 \<and> length xs < 5 then Inl GenerationError
                               else idea_loop 1 (take 5 xs)
                           | _ \<Rightarrow> Inl GenerationError))))"

section \<open>The post generator\<close>

text \<open>\<open>for elem in obj\<close> works on strings, lists and dicts.\<close>

fun iterable :: "pyval \<Rightarrow> bool" where
  "iterable (PStr s) = True"
| "iterable (PList xs) = True"
| "iterable (PDict d) = True"
| "iterable v = False"

text \<open>
  The start of \<open>generate_post_text\<close>: the log line calls \<open>idea.get\<close>, the prompt reads
  three fields of the idea, and \<open>build_post_prompt\<close> iterates over the key elements.
\<close>

definition post_prompt :: "env \<Rightarrow> ustring \<Rightarrow> ustring \<Rightarrow> ustring \<Rightarrow> pyval \<Rightarrow> exn_class + pyval" where
  "post_prompt E niche goal format_type idea =
     try_bind (get_method idea (u ''title''))
       (\<lambda>_. try_bind (subscript idea (u ''title''))
         (\<lambda>idea_title. try_bind (subscript idea (u ''description''))
           (\<lambda>idea_description. try_bind (subscript idea (u ''key_elements''))
             (\<lambda>key_elements.
                if \<not> iterable key_elements then Inl TypeError
                else Inr (post_messages E niche goal format_type
                            idea_title idea_description key_elements)))))"

text \<open>
  The end of \<open>generate_post_text\<close>, from \<open>json.loads(response)\<close> to
  \<open>return post_data\<close>; the last log line takes \<open>len(post_data['content'])\<close>.
\<close>

definition parse_post :: "env \<Rightarrow> ustring \<Rightarrow> exn_class + pyval" where
  "parse_post E response =
     (case json_loads E response of
        None \<Rightarrow> Inl GenerationError
      | Some result \<Rightarrow>
          try_bind (contains_key (u ''post'') result)
            (\<lambda>present.
               if \<not> present then Inl GenerationError
               else try_bind (subscript result (u ''post''))
                 (\<lambda>post_data. try_bind (check_fields GenerationError [u ''title'', u ''content''] post_data)
                   (\<lambda>_. try_bind
                      (try_bind (contains_key (u ''hashtags'') post_data)
                         (\<lambda>has_hashtags.
                            if \<not> has_hashtags then store post_data (u ''hashtags'') (PList [])
                            else try_bind (subscript post_data (u ''hashtags''))
                              (\<lambda>hashtags. if \<not> truthy hashtags
                                            then store post_data (u ''hashtags'') (PList [])
                                            else Inr post_data)))
                      (\<lambda>post_data1. try_bind
                         (try_bind (contains_key (u ''call_to_action'') post_data1)
                            (\<lambda>has_call. if \<not> has_call
                                          then store post_data1 (u ''call_to_action'') (PStr [])
                                          else Inr post_data1))
                         (\<lambda>post_data2. try_bind (subscript post_data2 (u ''content''))
                            (\<lambda>post_content. if \<not> has_len post_content then Inl TypeError
                                              else Inr post_data2)))))))"

text \<open>
  The three texts \<open>generate_post_text\<close> looks for in a \<open>GenerationError\<close> of the first
  request: "pustoy kontent", "otkazala" and "finish_reason: length".
\<close>

definition fallback_signatures :: "ustring list" where
  "fallback_signatures =
     [[1087, 1091, 1089, 1090, 1086, 1081, 32, 1082, 1086, 1085, 1090, 1077, 1085, 1090],
      [1086, 1090, 1082, 1072, 1079, 1072, 1083, 1072],
      u ''finish_reason: length'']"

text \<open>
  \<open>PostGenerator.generate_post_text\<close>: the requests it has sent, in order, and what
  it returns or raises. The inner \<open>except GenerationError\<close> sends the second request,
  to \<open>gpt-4o\<close>, or raises again; every exception ends in the handlers of the method.
\<close>

definition generate_post_text ::
  "env \<Rightarrow> settings \<Rightarrow> ustring \<Rightarrow> ustring \<Rightarrow> ustring \<Rightarrow> pyval
     \<Rightarrow> (ustring \<times> pyval) list list \<times> (exn_class + pyval)" where
  "generate_post_text E S niche goal format_type idea =
     (case post_prompt E niche goal format_type idea of
        Inl e \<Rightarrow> ([], service_handlers GenerationError (Inl e))
      | Inr messages \<Rightarrow>
          (let request = chat_completion_params messages (model_final_post S)
                           (temperature_post S) (Some (max_tokens_post S)) True []
           in case chat_completion (create E) messages (model_final_post S)
                     (temperature_post S) (Some (max_tokens_post S)) True [] of
                Inr response \<Rightarrow>
                  ([request], service_handlers GenerationError (parse_post E response))
              | Inl (Exn c text) \<Rightarrow>
                  if c = GenerationError
                  then
                    (let error_str = lower text
                     in if list_ex (\<lambda>signature. contains signature error_str) fallback_signatures
                        then
                          (let fallback_request = chat_completion_params messages (u ''gpt-4o'')
                                 (temperature_post S) (Some (max_tokens_post S)) True []
                           in case chat_completion (create E) messages (u ''gpt-4o'')
                                     (temperature_post S) (Some (max_tokens_post S)) True [] of
                                Inr response \<Rightarrow>
                                  ([request, fallback_request],
                                   service_handlers GenerationError (parse_post E response))
                              | Inl (Exn c2 text2) \<Rightarrow>
                                  ([request, fallback_request],
                                   service_handlers GenerationError (Inl c2)))
                        else ([request], service_handlers GenerationError (Inl c)))
                  else ([request], service_handlers GenerationError (Inl c))))"

section \<open>Example inputs\<close>

text \<open>The defaults of \<open>Settings\<close>.\<close>

definition default_settings :: settings where
  "default_settings =
     \<lparr>model_text_generation = u ''gpt-4o-mini'', model_final_post = u ''gpt-5'',
      temperature_ideas = Float 8 (- 1), temperature_post = Float 7 (- 1),
      temperature_moderation = Float 3 (- 1),
      max_tokens_ideas = 1500, max_tokens_post = 2500, max_off_topic_attempts = 3\<rparr>"

text \<open>
  An environment whose remote call returns the given choices to every request and
  whose replies parse to the given value; the message lists are left empty.
\<close>

definition env_replying :: "choice list \<Rightarrow> pyval option \<Rightarrow> env" where
  "env_replying choices parsed =
     \<lparr>create = (\<lambda>params. Returns choices), json_loads = (\<lambda>response. parsed),
      moderation_messages = (\<lambda>current_step bot_question user_response. PList []),
      ideas_messages = (\<lambda>niche goal format_type. PList []),
      post_messages = (\<lambda>niche goal format_type idea_title idea_description key_elements. PList [])\<rparr>"

text \<open>An environment whose remote call raises.\<close>

definition env_raising :: "exn \<Rightarrow> env" where
  "env_raising e = (env_replying [] None)\<lparr>create := (\<lambda>params. Raises e)\<rparr>"

text \<open>A reply of one choice that carries a text and finished normally.\<close>

definition text_reply :: "ustring \<Rightarrow> choice list" where
  "text_reply t = [Choice (Some (u ''stop'')) (ChatMessage None (Some t))]"

text \<open>A reply cut off by the token limit, with no content.\<close>

definition truncated_reply :: "choice list" where
  "truncated_reply = [Choice (Some (u ''length'')) (ChatMessage None (Some []))]"

text \<open>A reply in which the model refuses.\<close>

definition refusing_reply :: "choice list" where
  "refusing_reply = [Choice (Some (u ''stop'')) (ChatMessage (Some (u ''no'')) None)]"

text \<open>An idea with all four fields and the given \<open>id\<close>.\<close>

definition idea_with_id :: "pyval \<Rightarrow> pyval" where
  "idea_with_id i =
     PDict [(u ''id'', i), (u ''title'', PStr (u ''t'')), (u ''description'', PStr (u ''d'')),
            (u ''key_elements'', PList [])]"

text \<open>Verdicts of the relevance classifier, with and without the \<open>suggestion\<close> field.\<close>

definition verdict :: "bool \<Rightarrow> pyval" where
  "verdict relevant =
     PDict [(u ''is_relevant'', PBool relevant), (u ''reason'', PStr (u ''r'')),
            (u ''suggestion'', PNone)]"

definition verdict_without_suggestion :: pyval where
  "verdict_without_suggestion =
     PDict [(u ''is_relevant'', PBool True), (u ''reason'', PStr (u ''r''))]"

text \<open>An utterance that holds one of the offensive patterns ("suka"), and one that holds none.\<close>

definition offensive_utterance :: ustring where
  "offensive_utterance = [1089, 1091, 1082, 1072]"

definition plain_utterance :: ustring where
  "plain_utterance = u ''hello''"

text \<open>
  A classifier that answers every request with the given verdict, and a session
  right after \<open>/start\<close>.
\<close>

definition env_verdict :: "pyval \<Rightarrow> env" where
  "env_verdict v = env_replying (text_reply (u ''verdict'')) (Some v)"

definition session0 :: fsm where
  "session0 = started (PInt 1) (PStr (u ''user''))"

text \<open>
  The session of \<open>session0\<close> one step on: at \<open>COLLECTING_GOAL\<close>, the niche stored, with
  the given count.
\<close>

definition session_at_goal :: "int \<Rightarrow> fsm" where
  "session_at_goal n =
     \<lparr>current_state = Some COLLECTING_GOAL, off_topic_count = Some n,
      other_data = [(User_id, PInt 1), (Username, PStr (u ''user'')),
                    (Niche, PStr (u ''hello''))]\<rparr>"

text \<open>A verdict whose suggestion is the number 5, not a string.\<close>

definition verdict_with_number :: pyval where
  "verdict_with_number =
     PDict [(u ''is_relevant'', PBool False), (u ''reason'', PStr (u ''r'')),
            (u ''suggestion'', PInt 5)]"

text \<open>
  A generator whose reply parses to an object with the given list under \<open>ideas\<close>; and
  one whose list is made of complete ideas with the given \<open>id\<close> values.
\<close>

definition env_batch :: "pyval list \<Rightarrow> env" where
  "env_batch items =
     env_replying (text_reply (u ''ideas'')) (Some (PDict [(u ''ideas'', PList items)]))"

definition env_ideas :: "pyval list \<Rightarrow> env" where
  "env_ideas ids = env_batch (map idea_with_id ids)"

section \<open>Properties\<close>

subsection \<open>Strings and dictionaries\<close>

lemma u_eq_iff [simp]: "u a = u b \<longleftrightarrow> a = b"
  unfolding u_def by (rule inj_map_eq_map) (simp add: inj_on_def)

lemma dict_get_set [simp]:
  "dict_get (dict_set k v d) k' = (if k' = k then Some v else dict_get d k')"
  by (induction d) (auto simp: dict_get_def)

lemma dict_get_update_fresh:
  "dict_get e k = None \<Longrightarrow> dict_get (dict_update d e) k = dict_get d k"
proof (induction e arbitrary: d)
  case Nil
  then show ?case by simp
next
  case (Cons p e)
  obtain k' v' where p: "p = (k', v')" by (cases p)
  from Cons.prems p have "k' \<noteq> k" and "dict_get e k = None"
    by (auto simp: dict_get_def split: if_splits)
  with Cons.IH [of "dict_set k' v' d"] p show ?case by simp
qed

subsection \<open>Request adaptation\<close>

lemma supports_iff_not_uses:
  "supports_custom_temperature model = (\<not> uses_max_completion_tokens model)"
  by (simp add: supports_custom_temperature_def uses_max_completion_tokens_def
      fixed_temp_models_def new_models_def Let_def)

text \<open>
  C7. A model name whose lower-cased form starts with one of the prefixes gpt-5,
  o1-preview, o1-mini, o3-mini, o3 gets a request with no \<open>temperature\<close> field and no
  \<open>max_tokens\<close> field, its token limit (when one is given) under
  \<open>max_completion_tokens\<close>. Every other model name gets the \<open>temperature\<close> field and its
  token limit (when one is given) under \<open>max_tokens\<close>, and no \<open>max_completion_tokens\<close>
  field unless the caller's extra keyword arguments bring one. Which of the two holds is
  decided by the model name alone.
\<close>

theorem chat_completion_params_by_model:
  assumes kw: "kwargs_ok kwargs"
  shows "let params = chat_completion_params messages model temperature max_tokens json_mode kwargs;
             prefixed = (\<exists>p \<in> set new_models. startswith (lower model) p)
         in (prefixed \<longrightarrow>
               dict_get params (u ''temperature'') = None \<and>
               dict_get params (u ''max_tokens'') = None \<and>
               (max_tokens_given max_tokens \<longrightarrow>
                  dict_get params (u ''max_completion_tokens'') = Some (PInt (the max_tokens)))) \<and>
            (\<not> prefixed \<longrightarrow>
               dict_get params (u ''temperature'') = Some (PFloat temperature) \<and>
               (dict_get kwargs (u ''max_completion_tokens'') = None \<longrightarrow>
                  dict_get params (u ''max_completion_tokens'') = None) \<and>
               (max_tokens_given max_tokens \<longrightarrow>
                  dict_get params (u ''max_tokens'') = Some (PInt (the max_tokens))))"
proof -
  have t: "dict_get kwargs (u ''temperature'') = None"
    and m: "dict_get kwargs (u ''max_tokens'') = None"
    using kw by (simp_all add: kwargs_ok_def named_parameters_def)
  have uses: "uses_max_completion_tokens model = (\<exists>p \<in> set new_models. startswith (lower model) p)"
    by (simp add: uses_max_completion_tokens_def list_ex_iff)
  have base: "dict_get (dict_update [(u ''model'', PStr model), (u ''messages'', messages)] kwargs) k
      = dict_get kwargs k" if "k \<noteq> u ''model''" "k \<noteq> u ''messages''" "dict_get kwargs k = None" for k
    using that by (simp add: dict_get_update_fresh) (simp add: dict_get_def)
  show ?thesis
    unfolding chat_completion_params_def Let_def supports_iff_not_uses uses
    by (simp add: base t m)
qed

theorem chat_completion_params_by_model_witness:
  "kwargs_ok [] \<and>
   (\<exists>p \<in> set new_models. startswith (lower (u ''GPT-5-mini'')) p) \<and>
   max_tokens_given (Some 2000) \<and>
   dict_get (chat_completion_params (PList []) (u ''GPT-5-mini'') (Float 7 (- 1)) (Some 2000) True [])
     (u ''temperature'') = None \<and>
   dict_get (chat_completion_params (PList []) (u ''GPT-5-mini'') (Float 7 (- 1)) (Some 2000) True [])
     (u ''max_tokens'') = None \<and>
   dict_get (chat_completion_params (PList []) (u ''GPT-5-mini'') (Float 7 (- 1)) (Some 2000) True [])
     (u ''max_completion_tokens'') = Some (PInt 2000) \<and>
   \<not> (\<exists>p \<in> set new_models. startswith (lower (u ''gpt-4o'')) p) \<and>
   dict_get (chat_completion_params (PList []) (u ''gpt-4o'') (Float 7 (- 1)) (Some 2000) True [])
     (u ''temperature'') = Some (PFloat (Float 7 (- 1))) \<and>
   dict_get (chat_completion_params (PList []) (u ''gpt-4o'') (Float 7 (- 1)) (Some 2000) True [])
     (u ''max_completion_tokens'') = None \<and>
   dict_get (chat_completion_params (PList []) (u ''gpt-4o'') (Float 7 (- 1)) (Some 2000) True [])
     (u ''max_tokens'') = Some (PInt 2000)"
proof -
  have k: "kwargs_ok []"
    by (simp add: kwargs_ok_def named_parameters_def dict_get_def)
  have p: "\<exists>p \<in> set new_models. startswith (lower (u ''GPT-5-mini'')) p"
    by (simp add: new_models_def lower_def lower_cp_def u_def)
  have q: "\<not> (\<exists>p \<in> set new_models. startswith (lower (u ''gpt-4o'')) p)"
    by (simp add: new_models_def lower_def lower_cp_def u_def)
  have e: "dict_get ([] :: (ustring \<times> pyval) list) (u ''max_completion_tokens'') = None"
    by (simp add: dict_get_def)
  show ?thesis
    using k p q e
      chat_completion_params_by_model [OF k, of "PList []" "u ''GPT-5-mini''" "Float 7 (- 1)" "Some 2000" True]
      chat_completion_params_by_model [OF k, of "PList []" "u ''gpt-4o''" "Float 7 (- 1)" "Some 2000" True]
    by (simp add: Let_def)
qed

subsection \<open>The illustration offer\<close>

text \<open>
  C8. \<open>should_offer_image\<close> is a function of the format string: a keyword of the
  no-illustration list found in the lower-cased string gives \<open>False\<close>, whatever the
  with-illustration list finds; a with-illustration keyword and no no-illustration
  keyword gives \<open>True\<close>; no keyword of either list gives \<open>True\<close>. "Post dlya Instagram"
  gives \<open>True\<close>, "Stsenariy dlya video" gives \<open>False\<close>, and "Podkast", which neither list
  recognises, gives \<open>True\<close>.
\<close>

theorem should_offer_image_classifier:
  "(let format_lower = lower format_type;
        no_illustration = (\<exists>k \<in> set without_image_keywords. contains k format_lower);
        with_illustration = (\<exists>k \<in> set with_image_keywords. contains k format_lower)
    in (no_illustration \<longrightarrow> \<not> should_offer_image format_type) \<and>
       (with_illustration \<and> \<not> no_illustration \<longrightarrow> should_offer_image format_type) \<and>
       (\<not> with_illustration \<and> \<not> no_illustration \<longrightarrow> should_offer_image format_type)) \<and>
   should_offer_image format_post_instagram \<and>
   \<not> should_offer_image format_video_script \<and>
   \<not> (\<exists>k \<in> set without_image_keywords. contains k (lower format_podcast)) \<and>
   \<not> (\<exists>k \<in> set with_image_keywords. contains k (lower format_podcast)) \<and>
   should_offer_image format_podcast"
proof -
  have general: "should_offer_image f =
      (\<not> (\<exists>k \<in> set without_image_keywords. contains k (lower f)))" for f
    by (simp add: should_offer_image_def Let_def list_ex_iff)
  have a: "should_offer_image format_post_instagram"
    by (simp add: should_offer_image_def format_post_instagram_def lower_def lower_cp_def u_def
        without_image_keywords_def with_image_keywords_def)
  have b: "\<not> should_offer_image format_video_script"
    by (simp add: should_offer_image_def format_video_script_def lower_def lower_cp_def u_def
        without_image_keywords_def with_image_keywords_def)
  have c: "\<not> (\<exists>k \<in> set without_image_keywords. contains k (lower format_podcast))"
    by (simp add: format_podcast_def lower_def lower_cp_def u_def without_image_keywords_def)
  have d: "\<not> (\<exists>k \<in> set with_image_keywords. contains k (lower format_podcast))"
    by (simp add: format_podcast_def lower_def lower_cp_def u_def with_image_keywords_def)
  from c have e: "should_offer_image format_podcast"
    by (simp add: general)
  show ?thesis
    using a b c d e by (simp add: general Let_def)
qed

theorem should_offer_image_classifier_witness:
  "(\<exists>k \<in> set without_image_keywords. contains k (lower format_video_script)) \<and>
   \<not> should_offer_image format_video_script \<and>
   (\<exists>k \<in> set with_image_keywords. contains k (lower format_post_instagram)) \<and>
   \<not> (\<exists>k \<in> set without_image_keywords. contains k (lower format_post_instagram)) \<and>
   should_offer_image format_post_instagram \<and>
   \<not> (\<exists>k \<in> set with_image_keywords. contains k (lower format_podcast)) \<and>
   \<not> (\<exists>k \<in> set without_image_keywords. contains k (lower format_podcast)) \<and>
   should_offer_image format_podcast"
proof -
  have v: "\<exists>k \<in> set without_image_keywords. contains k (lower format_video_script)"
    by (simp add: format_video_script_def lower_def lower_cp_def u_def without_image_keywords_def)
  have i: "\<exists>k \<in> set with_image_keywords. contains k (lower format_post_instagram)"
    by (simp add: format_post_instagram_def lower_def lower_cp_def u_def with_image_keywords_def)
  have n: "\<not> (\<exists>k \<in> set without_image_keywords. contains k (lower format_post_instagram))"
    by (simp add: format_post_instagram_def lower_def lower_cp_def u_def without_image_keywords_def)
  show ?thesis
    using v i n should_offer_image_classifier [of format_video_script]
    by (simp add: Let_def)
qed

subsection \<open>The gateway's exceptions\<close>

lemma chat_completion_handlers_class:
  "\<exists>t. chat_completion_handlers e = Exn APIConnectionError t \<or>
        chat_completion_handlers e = Exn APIRateLimitError t \<or>
        chat_completion_handlers e = Exn APIAuthenticationError t \<or>
        chat_completion_handlers e = Exn APIError t"
  by (cases e) (simp add: Let_def)

text \<open>
  Whatever \<open>chat_completion\<close> raises has passed through its own handlers, the body's
  three \<open>raise GenerationError\<close> included: no \<open>GenerationError\<close> leaves the method.
\<close>

lemma chat_completion_raises:
  assumes "chat_completion cr ms model temp mt jm kw = Inl (Exn c t)"
  shows "c = APIConnectionError \<or> c = APIRateLimitError \<or> c = APIAuthenticationError \<or> c = APIError"
proof -
  from assms obtain e where "chat_completion_handlers e = Exn c t"
    by (auto simp: chat_completion_def Let_def split: chat_completion_result.splits sum.splits)
  with chat_completion_handlers_class [of e] show ?thesis by auto
qed

lemma chat_completion_never_GenerationError:
  "chat_completion cr ms model temp mt jm kw \<noteq> Inl (Exn GenerationError t)"
  using chat_completion_raises [of cr ms model temp mt jm kw GenerationError t] by auto

lemma chat_completion_no_choices:
  "chat_completion (\<lambda>params. Returns []) messages model temperature max_tokens json_mode kwargs
     = Inl (Exn APIError (text_api_error @ text_no_choices))"
  by (simp add: chat_completion_def extract_content_def Let_def text_no_choices_def
      lower_def lower_cp_def u_def)

lemma chat_completion_refusal:
  "chat_completion (\<lambda>params. Returns refusing_reply) messages model temperature max_tokens json_mode kwargs
     = Inl (Exn APIError (text_api_error @ text_refused @ u ''no''))"
  by (simp add: chat_completion_def extract_content_def Let_def text_refused_def
      refusing_reply_def lower_def lower_cp_def u_def)

lemma chat_completion_truncated:
  "chat_completion (\<lambda>params. Returns truncated_reply) messages model temperature max_tokens json_mode kwargs
     = Inl (Exn APIError (text_api_error @ text_empty_content @ u ''length)''))"
  by (simp add: chat_completion_def extract_content_def Let_def text_empty_content_def
      truncated_reply_def lower_def lower_cp_def u_def)

text \<open>
  C2. A response with no choices, a response whose message carries a refusal, and a
  response with empty content: in each, the body of \<open>chat_completion\<close> raises
  \<open>GenerationError\<close>, the method's own \<open>except Exception\<close> catches it, and what leaves the
  method is \<open>APIError\<close>, the generic API failure, with the text "Oshibka API: " before the
  text of the \<open>GenerationError\<close>.
\<close>

theorem chat_completion_generation_failures_leave_as_APIError:
  "chat_completion (\<lambda>params. Returns []) (PList []) (u ''gpt-4o-mini'') (Float 7 (- 1)) None False []
     = Inl (Exn APIError (text_api_error @ text_no_choices)) \<and>
   chat_completion (\<lambda>params. Returns refusing_reply) (PList []) (u ''gpt-4o-mini'') (Float 7 (- 1)) None False []
     = Inl (Exn APIError (text_api_error @ text_refused @ u ''no'')) \<and>
   chat_completion (\<lambda>params. Returns truncated_reply) (PList []) (u ''gpt-4o-mini'') (Float 7 (- 1)) None False []
     = Inl (Exn APIError (text_api_error @ text_empty_content @ u ''length)''))"
  by (simp add: chat_completion_no_choices chat_completion_refusal chat_completion_truncated)

subsection \<open>The fallback of the post generator\<close>

text \<open>
  Since no \<open>GenerationError\<close> leaves \<open>chat_completion\<close>, the inner
  \<open>except GenerationError\<close> of \<open>generate_post_text\<close> is never entered: the method sends
  one request at most.
\<close>

lemma generate_post_text_single_request:
  "length (fst (generate_post_text E S niche goal format_type idea)) \<le> 1"
  by (auto simp: generate_post_text_def Let_def chat_completion_never_GenerationError
      split: sum.splits exn.splits)

text \<open>
  C1. The first request, to \<open>gpt-5\<close>, comes back cut off by the token limit and without
  content. The text of the \<open>GenerationError\<close> raised for it holds two of the fallback
  signatures, but the exception reaches \<open>generate_post_text\<close> as \<open>APIError\<close>: the method
  has sent the one request to \<open>gpt-5\<close>, none to \<open>gpt-4o\<close>, and raises
  \<open>GenerationError\<close>.
\<close>

theorem generate_post_text_truncated_sends_no_fallback:
  "list_ex (\<lambda>signature. contains signature (lower (text_empty_content @ u ''length)'')))
     fallback_signatures \<and>
   generate_post_text (env_replying truncated_reply None) default_settings
       (u ''niche'') (u ''goal'') (u ''format'') (idea_with_id (PInt 2))
     = ([chat_completion_params (PList []) (u ''gpt-5'') (Float 7 (- 1)) (Some 2500) True []],
        Inl GenerationError) \<and>
   dict_get (chat_completion_params (PList []) (u ''gpt-5'') (Float 7 (- 1)) (Some 2500) True [])
     (u ''model'') = Some (PStr (u ''gpt-5''))"
proof -
  have a: "list_ex (\<lambda>signature. contains signature (lower (text_empty_content @ u ''length)'')))
     fallback_signatures"
    by (simp add: text_empty_content_def fallback_signatures_def lower_def lower_cp_def u_def)
  have b: "generate_post_text (env_replying truncated_reply None) default_settings
       (u ''niche'') (u ''goal'') (u ''format'') (idea_with_id (PInt 2))
     = ([chat_completion_params (PList []) (u ''gpt-5'') (Float 7 (- 1)) (Some 2500) True []],
        Inl GenerationError)"
    by (simp add: generate_post_text_def post_prompt_def idea_with_id_def try_bind_def dict_get_def
        env_replying_def default_settings_def chat_completion_truncated service_handlers_def)
  have c: "dict_get (chat_completion_params (PList []) (u ''gpt-5'') (Float 7 (- 1)) (Some 2500) True [])
     (u ''model'') = Some (PStr (u ''gpt-5''))"
    by (simp add: chat_completion_params_def Let_def) (simp add: dict_get_def)
  from a b c show ?thesis by simp
qed

subsection \<open>Exceptions of the services\<close>

lemma service_handlers_Inl: "service_handlers c r = Inl e \<Longrightarrow> e = c"
  by (auto simp: service_handlers_def split: sum.splits if_splits)

lemma service_handlers_Inr: "service_handlers c r = Inr x \<longleftrightarrow> r = Inr x"
  by (auto simp: service_handlers_def split: sum.splits if_splits)

lemma try_bind_Inr: "try_bind r f = Inr y \<longleftrightarrow> (\<exists>x. r = Inr x \<and> f x = Inr y)"
  by (cases r) (auto simp: try_bind_def)

lemma subscript_Inr: "subscript v k = Inr x \<longleftrightarrow> (\<exists>d. v = PDict d \<and> dict_get d k = Some x)"
  by (cases v) (auto split: option.splits)

lemma check_fields_dict:
  "check_fields c fs (PDict d) = (if \<forall>f \<in> set fs. dict_get d f \<noteq> None then Inr () else Inl c)"
  by (induction fs) auto

lemma fields_present_dict:
  "fields_present fs (PDict d) = Inr (\<forall>f \<in> set fs. dict_get d f \<noteq> None)"
  by (induction fs) auto

lemma request_replying:
  "t \<noteq> [] \<Longrightarrow>
   chat_completion (create (env_replying (text_reply t) p)) ms model temp mt jm kw = Inr t"
  by (simp add: chat_completion_def env_replying_def text_reply_def extract_content_def Let_def)

subsection \<open>The relevance check\<close>

lemma check_relevance_raises: "check_relevance E S step q t = Inl e \<Longrightarrow> e = ModerationError"
  unfolding check_relevance_def by (rule service_handlers_Inl)

lemma check_relevance_parsed:
  assumes "request_relevance E S step q t = Inr response"
    and "json_loads E response = Some (PDict d)"
  shows "check_relevance E S step q t =
           (if dict_get d (u ''is_relevant'') \<noteq> None \<and> dict_get d (u ''reason'') \<noteq> None
               \<and> dict_get d (u ''suggestion'') \<noteq> None
            then Inr (PDict d) else Inl ModerationError)"
  using assms
  by (auto simp: check_relevance_def try_bind_def service_handlers_def check_fields_dict)

lemma check_relevance_returns:
  assumes "check_relevance E S step q t = Inr result"
  shows "\<exists>d v. result = PDict d \<and> dict_get d (u ''is_relevant'') = Some v"
  using assms
  by (auto simp: check_relevance_def service_handlers_Inr try_bind_Inr subscript_Inr
      split: option.splits)

lemma request_relevance_env_verdict:
  "request_relevance (env_verdict v) S step q t = Inr (u ''verdict'')"
  by (simp add: request_relevance_def env_verdict_def request_replying u_def)

lemma json_loads_env_verdict: "json_loads (env_verdict v) response = Some v"
  by (simp add: env_verdict_def env_replying_def)

lemma check_relevance_env_verdict:
  "check_relevance (env_verdict (PDict d)) S step q t =
     (if dict_get d (u ''is_relevant'') \<noteq> None \<and> dict_get d (u ''reason'') \<noteq> None
         \<and> dict_get d (u ''suggestion'') \<noteq> None
      then Inr (PDict d) else Inl ModerationError)"
  by (rule check_relevance_parsed [OF request_relevance_env_verdict json_loads_env_verdict])

text \<open>
  C10, as the claim states it, fails: a verdict that parses to an object with
  \<open>is_relevant\<close> and \<open>reason\<close> but without \<open>suggestion\<close> makes \<open>check_relevance\<close> raise
  \<open>ModerationError\<close>.
\<close>

theorem check_relevance_without_suggestion_raises:
  "json_loads (env_verdict verdict_without_suggestion) (u ''verdict'')
     = Some (PDict [(u ''is_relevant'', PBool True), (u ''reason'', PStr (u ''r''))]) \<and>
   check_relevance (env_verdict verdict_without_suggestion) default_settings
       (u ''COLLECTING_NICHE'') (u ''question'') plain_utterance
     = Inl ModerationError"
  by (simp add: json_loads_env_verdict verdict_without_suggestion_def check_relevance_env_verdict
      dict_get_def)

text \<open>
  C10, amended. When the reply of the classifier parses to an object that holds
  \<open>is_relevant\<close> and \<open>reason\<close>, \<open>check_relevance\<close> returns that object if it also holds
  the key \<open>suggestion\<close> (whatever its value, \<open>null\<close> included), and raises
  \<open>ModerationError\<close> if the key is absent: \<open>suggestion\<close> is one of its three required
  fields.
\<close>

theorem check_relevance_requires_suggestion:
  assumes "request_relevance E S current_step bot_question user_response = Inr response"
    and "json_loads E response = Some (PDict d)"
    and "dict_get d (u ''is_relevant'') \<noteq> None"
    and "dict_get d (u ''reason'') \<noteq> None"
  shows "check_relevance E S current_step bot_question user_response =
           (if dict_get d (u ''suggestion'') \<noteq> None then Inr (PDict d) else Inl ModerationError)"
  using assms by (simp add: check_relevance_parsed)

theorem check_relevance_requires_suggestion_witness:
  "request_relevance (env_verdict (verdict True)) default_settings
       (u ''COLLECTING_NICHE'') (u ''question'') plain_utterance = Inr (u ''verdict'') \<and>
   json_loads (env_verdict (verdict True)) (u ''verdict'')
     = Some (PDict [(u ''is_relevant'', PBool True), (u ''reason'', PStr (u ''r'')),
                    (u ''suggestion'', PNone)]) \<and>
   check_relevance (env_verdict (verdict True)) default_settings
       (u ''COLLECTING_NICHE'') (u ''question'') plain_utterance
     = Inr (PDict [(u ''is_relevant'', PBool True), (u ''reason'', PStr (u ''r'')),
                   (u ''suggestion'', PNone)])"
proof -
  have r: "request_relevance (env_verdict (verdict True)) default_settings
       (u ''COLLECTING_NICHE'') (u ''question'') plain_utterance = Inr (u ''verdict'')"
    by (rule request_relevance_env_verdict)
  have l: "json_loads (env_verdict (verdict True)) (u ''verdict'')
     = Some (PDict [(u ''is_relevant'', PBool True), (u ''reason'', PStr (u ''r'')),
                    (u ''suggestion'', PNone)])"
    by (simp add: json_loads_env_verdict verdict_def)
  have a: "dict_get [(u ''is_relevant'', PBool True), (u ''reason'', PStr (u ''r'')),
                     (u ''suggestion'', PNone)] (u ''is_relevant'') \<noteq> None"
    by (simp add: dict_get_def)
  have b: "dict_get [(u ''is_relevant'', PBool True), (u ''reason'', PStr (u ''r'')),
                     (u ''suggestion'', PNone)] (u ''reason'') \<noteq> None"
    by (simp add: dict_get_def)
  show ?thesis
    using r l check_relevance_requires_suggestion [OF r l a b]
    by (simp add: dict_get_def)
qed

subsection \<open>The moderation gate\<close>

lemma check_and_moderate_offensive:
  assumes "detect_offensive_content text"
  shows "check_and_moderate E S text st step q =
     (if get_off_topic_count st + 1 = 1
      then (Inr False, st\<lparr>off_topic_count := Some 1\<rparr>, [Answer Respect_request])
      else (Inr False, clear st, [Answer Offence_farewell]))"
  using assms by (simp add: check_and_moderate_def Let_def update_off_topic_count_def clear_def)

lemma send_with_typing_redirection:
  "send_with_typing (get_redirection_message n q suggestion) =
     (if n = 1 \<and> truthy suggestion \<and> \<not> isinstance_str suggestion
      then Inl (if has_len suggestion then OtherException else TypeError)
      else Inr [Send_with_typing (get_redirection_message n q suggestion)])"
  by (cases suggestion) (auto simp: get_redirection_message_def)

lemma check_and_moderate_verdict:
  assumes "\<not> detect_offensive_content text"
    and "check_relevance E S step q text = Inr (PDict d)"
    and "dict_get d (u ''is_relevant'') = Some v"
  shows "check_and_moderate E S text st step q =
     (let n = get_off_topic_count st + 1;
          suggestion = (case dict_get d (u ''suggestion'') of None \<Rightarrow> PNone | Some s \<Rightarrow> s)
      in if truthy v then (Inr True, st\<lparr>off_topic_count := Some 0\<rparr>, [])
         else if n > max_off_topic_attempts S
         then (Inr False, \<lparr>current_state = None, off_topic_count = None, other_data = []\<rparr>,
               [Answer (get_redirection_message n q PNone)])
         else if n = 1 \<and> truthy suggestion \<and> \<not> isinstance_str suggestion
         then (Inl (if has_len suggestion then OtherException else TypeError),
               st\<lparr>off_topic_count := Some n\<rparr>, [])
         else (Inr False, st\<lparr>off_topic_count := Some n\<rparr>,
               [Send_with_typing (get_redirection_message n q suggestion)]))"
  using assms
  by (auto simp: check_and_moderate_def Let_def update_off_topic_count_def clear_def
      should_end_conversation_def send_with_typing_redirection split: option.splits)

lemma offensive_utterance_detected: "detect_offensive_content offensive_utterance"
  by (simp add: detect_offensive_content_def offensive_utterance_def offensive_patterns_def
      lower_def lower_cp_def)

lemma plain_utterance_passes: "\<not> detect_offensive_content plain_utterance"
  by (simp add: detect_offensive_content_def plain_utterance_def offensive_patterns_def
      lower_def lower_cp_def u_def)

lemma session0_value:
  "session0 = \<lparr>current_state = Some COLLECTING_NICHE, off_topic_count = Some 0,
               other_data = [(User_id, PInt 1), (Username, PStr (u ''user''))]\<rparr>"
  by (simp add: session0_def started_def update_data_def update_off_topic_count_def
      set_state_def clear_def)

lemma check_relevance_verdict:
  "check_relevance (env_verdict (verdict b)) S step q t = Inr (verdict b)"
  by (simp add: verdict_def check_relevance_env_verdict dict_get_def)

lemma check_and_moderate_plain:
  "check_and_moderate (env_verdict (verdict b)) default_settings plain_utterance
     (session0\<lparr>off_topic_count := Some n\<rparr>) step q =
   (if b then (Inr True, session0\<lparr>off_topic_count := Some 0\<rparr>, [])
    else if n + 1 > 3 then (Inr False, clear session0, [Answer (get_redirection_message (n + 1) q PNone)])
    else (Inr False, session0\<lparr>off_topic_count := Some (n + 1)\<rparr>,
          [Send_with_typing (get_redirection_message (n + 1) q PNone)]))"
proof -
  have c: "check_relevance (env_verdict (verdict b)) default_settings step q plain_utterance
      = Inr (PDict [(u ''is_relevant'', PBool b), (u ''reason'', PStr (u ''r'')),
                    (u ''suggestion'', PNone)])"
    using check_relevance_verdict [of b] by (simp add: verdict_def)
  have v: "dict_get [(u ''is_relevant'', PBool b), (u ''reason'', PStr (u ''r'')),
                     (u ''suggestion'', PNone)] (u ''is_relevant'') = Some (PBool b)"
    by (simp add: dict_get_def)
  have m: "max_off_topic_attempts default_settings = 3"
    by (simp add: default_settings_def)
  show ?thesis
    by (simp only: check_and_moderate_verdict [OF plain_utterance_passes c v])
       (simp add: get_off_topic_count_def m clear_def dict_get_def Let_def)
qed

text \<open>
  C3, as the claim states it, fails twice. After one off-topic reply the first
  profanity-flagged utterance of the session finds the shared counter at 1, and the
  session is cleared at once. And after a warned profanity and a relevant reply, which
  resets the counter, the second profanity-flagged utterance of the session is only
  warned again.
\<close>

theorem first_profanity_after_off_topic_clears_session:
  "check_and_moderate (env_verdict (verdict False)) default_settings plain_utterance
       session0 (u ''COLLECTING_NICHE'') (u ''question'')
     = (Inr False, session0\<lparr>off_topic_count := Some 1\<rparr>,
        [Send_with_typing (Focus_text (u ''question''))]) \<and>
   check_and_moderate (env_verdict (verdict False)) default_settings offensive_utterance
       (session0\<lparr>off_topic_count := Some 1\<rparr>) (u ''COLLECTING_NICHE'') (u ''question'')
     = (Inr False, \<lparr>current_state = None, off_topic_count = None, other_data = []\<rparr>,
        [Answer Offence_farewell]) \<and>
   check_and_moderate (env_verdict (verdict True)) default_settings offensive_utterance
       session0 (u ''COLLECTING_NICHE'') (u ''question'')
     = (Inr False, session0\<lparr>off_topic_count := Some 1\<rparr>, [Answer Respect_request]) \<and>
   check_and_moderate (env_verdict (verdict True)) default_settings plain_utterance
       (session0\<lparr>off_topic_count := Some 1\<rparr>) (u ''COLLECTING_NICHE'') (u ''question'')
     = (Inr True, session0, []) \<and>
   check_and_moderate (env_verdict (verdict True)) default_settings offensive_utterance
       session0 (u ''COLLECTING_GOAL'') (u ''question'')
     = (Inr False, session0\<lparr>off_topic_count := Some 1\<rparr>, [Answer Respect_request])"
proof -
  have s: "session0 = session0\<lparr>off_topic_count := Some 0\<rparr>"
    by (simp add: session0_value)
  have a: "check_and_moderate (env_verdict (verdict False)) default_settings plain_utterance
       session0 (u ''COLLECTING_NICHE'') (u ''question'')
     = (Inr False, session0\<lparr>off_topic_count := Some 1\<rparr>,
        [Send_with_typing (Focus_text (u ''question''))])"
    using check_and_moderate_plain [of False 0 "u ''COLLECTING_NICHE''" "u ''question''"]
    by (simp add: s [symmetric] get_redirection_message_def)
  have b: "check_and_moderate (env_verdict (verdict True)) default_settings plain_utterance
       (session0\<lparr>off_topic_count := Some 1\<rparr>) (u ''COLLECTING_NICHE'') (u ''question'')
     = (Inr True, session0, [])"
    using check_and_moderate_plain [of True 1 "u ''COLLECTING_NICHE''" "u ''question''"]
    by (simp add: s [symmetric])
  show ?thesis
    by (simp add: a b check_and_moderate_offensive [OF offensive_utterance_detected]
        get_off_topic_count_def clear_def) (simp add: session0_value)
qed

text \<open>
  C3, amended. A profanity-flagged utterance is never shown to the classifier and adds
  one to \<open>off_topic_count\<close>, the counter it shares with the off-topic verdicts. If the
  counter was 0 (nothing counted since \<open>/start\<close> or since the last relevant reply), the
  bot asks for a respectful tone and the session stays, its counter at 1; otherwise the
  bot says goodbye and clears the session at once, whatever the configured maximum of
  off-topic attempts. So a profanity-flagged utterance that follows a warned one
  directly clears the session.
\<close>

theorem profanity_strikes:
  assumes "detect_offensive_content text" and "detect_offensive_content text'"
  shows "check_and_moderate E S text st step q =
           (if get_off_topic_count st = 0
            then (Inr False, st\<lparr>off_topic_count := Some 1\<rparr>, [Answer Respect_request])
            else (Inr False, clear st, [Answer Offence_farewell])) \<and>
         check_and_moderate E' S' text' (st\<lparr>off_topic_count := Some 1\<rparr>) step' q' =
           (Inr False, clear st, [Answer Offence_farewell])"
  using assms by (simp add: check_and_moderate_offensive get_off_topic_count_def clear_def)

theorem profanity_strikes_witness:
  "detect_offensive_content offensive_utterance \<and>
   get_off_topic_count session0 = 0 \<and>
   check_and_moderate (env_verdict (verdict True)) default_settings offensive_utterance
       session0 (u ''COLLECTING_NICHE'') (u ''question'')
     = (Inr False, session0\<lparr>off_topic_count := Some 1\<rparr>, [Answer Respect_request]) \<and>
   check_and_moderate (env_verdict (verdict True)) default_settings offensive_utterance
       (session0\<lparr>off_topic_count := Some 1\<rparr>) (u ''COLLECTING_NICHE'') (u ''question'')
     = (Inr False, clear session0, [Answer Offence_farewell])"
proof -
  have z: "get_off_topic_count session0 = 0"
    by (simp add: session0_value get_off_topic_count_def)
  show ?thesis
    using z offensive_utterance_detected
      profanity_strikes [OF offensive_utterance_detected offensive_utterance_detected,
        of "env_verdict (verdict True)" default_settings session0
           "u ''COLLECTING_NICHE''" "u ''question''"
           "env_verdict (verdict True)" default_settings
           "u ''COLLECTING_NICHE''" "u ''question''"]
    by simp
qed

lemma handle_niche_after_gate:
  "(let g = check_and_moderate E S text st (u ''COLLECTING_NICHE'')
              (get_state_question (u ''COLLECTING_NICHE''));
        h = handle_niche E S text st
    in off_topic_count (fst (snd h)) = off_topic_count (fst (snd g)) \<and>
       (if fst g = Inr True
        then fst h = Inr () \<and> current_state (fst (snd h)) = Some COLLECTING_GOAL \<and>
             dict_get (other_data (fst (snd h))) Niche = Some (PStr (strip text))
        else fst (snd h) = fst (snd g)))"
  by (auto simp: handle_niche_def Let_def update_data_def set_state_def
      split: prod.splits sum.splits)

lemma handle_goal_after_gate:
  "(let g = check_and_moderate E S text st (u ''COLLECTING_GOAL'')
              (get_state_question (u ''COLLECTING_GOAL''));
        h = handle_goal E S text st
    in off_topic_count (fst (snd h)) = off_topic_count (fst (snd g)) \<and>
       (if fst g = Inr True
        then fst h = Inr () \<and> current_state (fst (snd h)) = Some COLLECTING_FORMAT \<and>
             dict_get (other_data (fst (snd h))) Goal = Some (PStr (strip text))
        else fst (snd h) = fst (snd g)))"
  by (auto simp: handle_goal_def Let_def update_data_def set_state_def
      split: prod.splits sum.splits)

text \<open>
  C4. For an utterance without profanity, at any step and in any session:
  if the relevance check raises, the session is left as it is; a relevant verdict stores
  0 in \<open>off_topic_count\<close>; an off-topic verdict adds exactly 1 to it. If the new count
  exceeds \<open>max_off_topic_attempts\<close> the session is cleared (no state, no data) and the reply
  goes out by \<open>message.answer\<close>; otherwise the session stays with the new count, and the
  redirection is sent, unless it is the classifier's own suggestion and that is no
  string, in which case sending it raises and nothing is sent. Such an utterance draws an
  \<open>answer\<close> reply exactly on the threshold path, an off-topic verdict with the new count
  beyond the maximum. The step and its question enter only through the verdict, and the
  counter is one for all steps: \<open>handle_niche\<close> and \<open>handle_goal\<close>, which make the two
  moves from one moderated step to the next, leave the counter as the moderation gate
  left it, and store the answer and move on if and only if the gate returned \<open>True\<close>.
  The default maximum is 3.
\<close>

theorem off_topic_counter:
  assumes "\<not> detect_offensive_content text"
  shows
    "(case check_relevance E S step q text of
        Inl e \<Rightarrow> check_and_moderate E S text st step q = (Inr True, st, [])
      | Inr result \<Rightarrow>
          (\<exists>d v. result = PDict d \<and> dict_get d (u ''is_relevant'') = Some v \<and>
             check_and_moderate E S text st step q =
               (let n = get_off_topic_count st + 1;
                    suggestion = (case dict_get d (u ''suggestion'') of
                                    None \<Rightarrow> PNone | Some s \<Rightarrow> s)
                in if truthy v then (Inr True, st\<lparr>off_topic_count := Some 0\<rparr>, [])
                   else if n > max_off_topic_attempts S
                   then (Inr False,
                         \<lparr>current_state = None, off_topic_count = None, other_data = []\<rparr>,
                         [Answer (get_redirection_message n q PNone)])
                   else if n = 1 \<and> truthy suggestion \<and> \<not> isinstance_str suggestion
                   then (Inl (if has_len suggestion then OtherException else TypeError),
                         st\<lparr>off_topic_count := Some n\<rparr>, [])
                   else (Inr False, st\<lparr>off_topic_count := Some n\<rparr>,
                         [Send_with_typing (get_redirection_message n q suggestion)])))) \<and>
     ((\<exists>m. snd (snd (check_and_moderate E S text st step q)) = [Answer m]) \<longleftrightarrow>
        (\<exists>d v. check_relevance E S step q text = Inr (PDict d) \<and>
           dict_get d (u ''is_relevant'') = Some v \<and> \<not> truthy v \<and>
           get_off_topic_count st + 1 > max_off_topic_attempts S)) \<and>
     (let g = check_and_moderate E S text st (u ''COLLECTING_NICHE'')
                (get_state_question (u ''COLLECTING_NICHE''));
          h = handle_niche E S text st
      in off_topic_count (fst (snd h)) = off_topic_count (fst (snd g)) \<and>
         (if fst g = Inr True
          then fst h = Inr () \<and> current_state (fst (snd h)) = Some COLLECTING_GOAL \<and>
               dict_get (other_data (fst (snd h))) Niche = Some (PStr (strip text))
          else fst (snd h) = fst (snd g))) \<and>
     (let g = check_and_moderate E S text st (u ''COLLECTING_GOAL'')
                (get_state_question (u ''COLLECTING_GOAL''));
          h = handle_goal E S text st
      in off_topic_count (fst (snd h)) = off_topic_count (fst (snd g)) \<and>
         (if fst g = Inr True
          then fst h = Inr () \<and> current_state (fst (snd h)) = Some COLLECTING_FORMAT \<and>
               dict_get (other_data (fst (snd h))) Goal = Some (PStr (strip text))
          else fst (snd h) = fst (snd g))) \<and>
     max_off_topic_attempts default_settings = 3"
proof (intro conjI)
  show "case check_relevance E S step q text of
        Inl e \<Rightarrow> check_and_moderate E S text st step q = (Inr True, st, [])
      | Inr result \<Rightarrow>
          (\<exists>d v. result = PDict d \<and> dict_get d (u ''is_relevant'') = Some v \<and>
             check_and_moderate E S text st step q =
               (let n = get_off_topic_count st + 1;
                    suggestion = (case dict_get d (u ''suggestion'') of
                                    None \<Rightarrow> PNone | Some s \<Rightarrow> s)
                in if truthy v then (Inr True, st\<lparr>off_topic_count := Some 0\<rparr>, [])
                   else if n > max_off_topic_attempts S
                   then (Inr False,
                         \<lparr>current_state = None, off_topic_count = None, other_data = []\<rparr>,
                         [Answer (get_redirection_message n q PNone)])
                   else if n = 1 \<and> truthy suggestion \<and> \<not> isinstance_str suggestion
                   then (Inl (if has_len suggestion then OtherException else TypeError),
                         st\<lparr>off_topic_count := Some n\<rparr>, [])
                   else (Inr False, st\<lparr>off_topic_count := Some n\<rparr>,
                         [Send_with_typing (get_redirection_message n q suggestion)])))"
  proof (cases "check_relevance E S step q text")
    case (Inl e)
    then have "e = ModerationError" by (rule check_relevance_raises)
    with Inl assms show ?thesis by (simp add: check_and_moderate_def Let_def)
  next
    case (Inr result)
    from check_relevance_returns [OF Inr]
    obtain d v where r: "result = PDict d" and v: "dict_get d (u ''is_relevant'') = Some v"
      by blast
    from Inr r have c: "check_relevance E S step q text = Inr (PDict d)" by simp
    from check_and_moderate_verdict [OF assms c v, of st] Inr r v show ?thesis by simp
  qed
next
  show "(\<exists>m. snd (snd (check_and_moderate E S text st step q)) = [Answer m]) \<longleftrightarrow>
        (\<exists>d v. check_relevance E S step q text = Inr (PDict d) \<and>
           dict_get d (u ''is_relevant'') = Some v \<and> \<not> truthy v \<and>
           get_off_topic_count st + 1 > max_off_topic_attempts S)"
  proof (cases "check_relevance E S step q text")
    case (Inl e)
    then have "e = ModerationError" by (rule check_relevance_raises)
    with Inl assms show ?thesis by (simp add: check_and_moderate_def Let_def)
  next
    case (Inr result)
    from check_relevance_returns [OF Inr]
    obtain d v where r: "result = PDict d" and v: "dict_get d (u ''is_relevant'') = Some v"
      by blast
    from Inr r have c: "check_relevance E S step q text = Inr (PDict d)" by simp
    show ?thesis
      using c v by (auto simp: check_and_moderate_verdict [OF assms c v] Let_def)
  qed
next
  show "let g = check_and_moderate E S text st (u ''COLLECTING_NICHE'')
                (get_state_question (u ''COLLECTING_NICHE''));
          h = handle_niche E S text st
      in off_topic_count (fst (snd h)) = off_topic_count (fst (snd g)) \<and>
         (if fst g = Inr True
          then fst h = Inr () \<and> current_state (fst (snd h)) = Some COLLECTING_GOAL \<and>
               dict_get (other_data (fst (snd h))) Niche = Some (PStr (strip text))
          else fst (snd h) = fst (snd g))"
    by (rule handle_niche_after_gate)
next
  show "let g = check_and_moderate E S text st (u ''COLLECTING_GOAL'')
                (get_state_question (u ''COLLECTING_GOAL''));
          h = handle_goal E S text st
      in off_topic_count (fst (snd h)) = off_topic_count (fst (snd g)) \<and>
         (if fst g = Inr True
          then fst h = Inr () \<and> current_state (fst (snd h)) = Some COLLECTING_FORMAT \<and>
               dict_get (other_data (fst (snd h))) Goal = Some (PStr (strip text))
          else fst (snd h) = fst (snd g))"
    by (rule handle_goal_after_gate)
next
  show "max_off_topic_attempts default_settings = 3"
    by (simp add: default_settings_def)
qed

theorem off_topic_counter_witness:
  "\<not> detect_offensive_content plain_utterance \<and>
   handle_niche (env_verdict (verdict False)) default_settings plain_utterance session0
     = (Inr (), session0\<lparr>off_topic_count := Some 1\<rparr>,
        [Send_with_typing (Focus_text question_niche)]) \<and>
   handle_niche (env_raising (Exn TimeoutException [])) default_settings plain_utterance
       (session0\<lparr>off_topic_count := Some 1\<rparr>)
     = (Inr (), session_at_goal 1, [Send_with_typing (Ask_goal (u ''hello''))]) \<and>
   handle_goal (env_verdict (verdict False)) default_settings plain_utterance (session_at_goal 1)
     = (Inr (), session_at_goal 2, [Send_with_typing (Firm_text question_goal)]) \<and>
   check_and_moderate (env_verdict (verdict False)) default_settings plain_utterance
       (session_at_goal 2) (u ''COLLECTING_FORMAT'') question_format
     = (Inr False, session_at_goal 3, [Send_with_typing (Distracted_text question_format)]) \<and>
   check_and_moderate (env_verdict (verdict False)) default_settings plain_utterance
       (session_at_goal 3) (u ''COLLECTING_FORMAT'') question_format
     = (Inr False, \<lparr>current_state = None, off_topic_count = None, other_data = []\<rparr>,
        [Answer Farewell_text]) \<and>
   check_and_moderate (env_verdict (verdict True)) default_settings plain_utterance
       (session_at_goal 3) (u ''COLLECTING_FORMAT'') question_format
     = (Inr True, session_at_goal 0, []) \<and>
   check_and_moderate (env_verdict verdict_with_number) default_settings plain_utterance
       session0 (u ''COLLECTING_NICHE'') question_niche
     = (Inl TypeError, session0\<lparr>off_topic_count := Some 1\<rparr>, [])"
proof -
  note p = plain_utterance_passes
  let ?off = "env_verdict (verdict False)"
  let ?fail = "env_raising (Exn TimeoutException [])"
  have m: "max_off_topic_attempts default_settings = 3"
    by (simp add: default_settings_def)
  have qn: "get_state_question (u ''COLLECTING_NICHE'') = question_niche"
    and qg: "get_state_question (u ''COLLECTING_GOAL'') = question_goal"
    by (simp_all add: get_state_question_def)
  have r: "check_relevance ?fail default_settings step q plain_utterance = Inl ModerationError"
    for step q
    by (simp add: check_relevance_def request_relevance_def chat_completion_def env_raising_def
        env_replying_def Let_def try_bind_def service_handlers_def)
  have n: "check_relevance (env_verdict verdict_with_number) default_settings step q plain_utterance
      = Inr (PDict [(u ''is_relevant'', PBool False), (u ''reason'', PStr (u ''r'')),
                    (u ''suggestion'', PInt 5)])" for step q
    by (simp add: verdict_with_number_def check_relevance_env_verdict dict_get_def)
  have c: "check_relevance (env_verdict (verdict b)) default_settings step q plain_utterance
      = Inr (PDict [(u ''is_relevant'', PBool b), (u ''reason'', PStr (u ''r'')),
                    (u ''suggestion'', PNone)])" for b step q
    using check_relevance_verdict [of b] by (simp add: verdict_def)
  have s: "strip plain_utterance = u ''hello''"
    by (simp add: strip_def strip_chars_def whitespace_def plain_utterance_def u_def)
  have f: "reformulate_user_input ?fail (u ''hello'') (u ''niche'') = u ''hello''"
    by (simp add: reformulate_user_input_def chat_completion_def env_raising_def env_replying_def
        Let_def)
  have g0: "get_off_topic_count session0 = 0"
    by (simp add: session0_value get_off_topic_count_def)
  have g: "get_off_topic_count (session_at_goal k) = k" for k
    by (simp add: session_at_goal_def get_off_topic_count_def)
  have u: "(session_at_goal k)\<lparr>off_topic_count := Some j\<rparr> = session_at_goal j" for k j
    by (simp add: session_at_goal_def)
  have a1: "check_and_moderate ?off default_settings plain_utterance session0
       (u ''COLLECTING_NICHE'') question_niche
     = (Inr False, session0\<lparr>off_topic_count := Some 1\<rparr>,
        [Send_with_typing (Focus_text question_niche)])"
    using off_topic_counter [OF p, where E = ?off and S = default_settings
        and step = "u ''COLLECTING_NICHE''" and q = question_niche and st = session0]
    by (auto simp: c dict_get_def m g0 Let_def get_redirection_message_def)
  have a2: "check_and_moderate ?fail default_settings plain_utterance
       (session0\<lparr>off_topic_count := Some 1\<rparr>) (u ''COLLECTING_NICHE'') question_niche
     = (Inr True, session0\<lparr>off_topic_count := Some 1\<rparr>, [])"
    using off_topic_counter [OF p, where E = ?fail and S = default_settings
        and step = "u ''COLLECTING_NICHE''" and q = question_niche
        and st = "session0\<lparr>off_topic_count := Some 1\<rparr>"]
    by (simp add: r)
  have a3: "check_and_moderate ?off default_settings plain_utterance (session_at_goal k)
       step q
     = (if k + 1 > 3
        then (Inr False, \<lparr>current_state = None, off_topic_count = None, other_data = []\<rparr>,
              [Answer (get_redirection_message (k + 1) q PNone)])
        else (Inr False, session_at_goal (k + 1),
              [Send_with_typing (get_redirection_message (k + 1) q PNone)]))" for k step q
    using off_topic_counter [OF p, where E = ?off and S = default_settings
        and step = step and q = q and st = "session_at_goal k"]
    by (auto simp: c dict_get_def m g u Let_def)
  have a4: "check_and_moderate (env_verdict (verdict True)) default_settings plain_utterance
       (session_at_goal 3) (u ''COLLECTING_FORMAT'') question_format
     = (Inr True, session_at_goal 0, [])"
    using off_topic_counter [OF p, where E = "env_verdict (verdict True)" and S = default_settings
        and step = "u ''COLLECTING_FORMAT''" and q = question_format and st = "session_at_goal 3"]
    by (auto simp: c dict_get_def u Let_def)
  have a5: "check_and_moderate (env_verdict verdict_with_number) default_settings plain_utterance
       session0 (u ''COLLECTING_NICHE'') question_niche
     = (Inl TypeError, session0\<lparr>off_topic_count := Some 1\<rparr>, [])"
    using off_topic_counter [OF p, where E = "env_verdict verdict_with_number"
        and S = default_settings and step = "u ''COLLECTING_NICHE''" and q = question_niche
        and st = session0]
    by (auto simp: n dict_get_def m g0 Let_def)
  have w1: "handle_niche ?off default_settings plain_utterance session0
     = (Inr (), session0\<lparr>off_topic_count := Some 1\<rparr>,
        [Send_with_typing (Focus_text question_niche)])"
    by (simp add: handle_niche_def qn a1)
  have w2: "handle_niche ?fail default_settings plain_utterance
       (session0\<lparr>off_topic_count := Some 1\<rparr>)
     = (Inr (), session_at_goal 1, [Send_with_typing (Ask_goal (u ''hello''))])"
    by (simp add: handle_niche_def qn a2 s f Let_def)
       (simp add: session0_value session_at_goal_def update_data_def set_state_def)
  have w3: "handle_goal ?off default_settings plain_utterance (session_at_goal 1)
     = (Inr (), session_at_goal 2, [Send_with_typing (Firm_text question_goal)])"
    by (simp add: handle_goal_def qg a3 get_redirection_message_def)
  from p w1 w2 w3 a3 [of 2] a3 [of 3] a4 a5 show ?thesis
    by (simp add: get_redirection_message_def)
qed

text \<open>
  C9. When the relevance check of an utterance raises (and \<open>ModerationError\<close> is all
  it raises), \<open>check_and_moderate\<close> catches the exception and returns \<open>True\<close>, as it
  does for a relevant verdict, so the handler goes on with the utterance; it sends no
  reply and leaves the session, \<open>off_topic_count\<close> included, exactly as it was.
\<close>

theorem moderation_failure_fails_open:
  assumes "\<not> detect_offensive_content text"
    and "check_relevance E S step q text = Inl e"
  shows "e = ModerationError \<and> check_and_moderate E S text st step q = (Inr True, st, [])"
proof -
  from assms(2) have "e = ModerationError" by (rule check_relevance_raises)
  with assms show ?thesis by (simp add: check_and_moderate_def Let_def)
qed

theorem moderation_failure_fails_open_witness:
  "\<not> detect_offensive_content plain_utterance \<and>
   check_relevance (env_raising (Exn TimeoutException [])) default_settings
       (u ''COLLECTING_NICHE'') (u ''question'') plain_utterance = Inl ModerationError \<and>
   check_and_moderate (env_raising (Exn TimeoutException [])) default_settings plain_utterance
       (session0\<lparr>off_topic_count := Some 2\<rparr>) (u ''COLLECTING_NICHE'') (u ''question'')
     = (Inr True, session0\<lparr>off_topic_count := Some 2\<rparr>, [])"
proof -
  have r: "check_relevance (env_raising (Exn TimeoutException [])) default_settings
       (u ''COLLECTING_NICHE'') (u ''question'') plain_utterance = Inl ModerationError"
    by (simp add: check_relevance_def request_relevance_def chat_completion_def env_raising_def
        env_replying_def Let_def try_bind_def service_handlers_def)
  show ?thesis
    using plain_utterance_passes r
      moderation_failure_fails_open [OF plain_utterance_passes r,
        of "session0\<lparr>off_topic_count := Some 2\<rparr>"]
    by simp
qed

subsection \<open>The idea generator\<close>

lemma validate_idea_dict:
  "validate_idea (PDict d) =
     Inr ((\<forall>f \<in> set required_fields. dict_get d f \<noteq> None) \<and>
          (\<exists>ke. dict_get d (u ''key_elements'') = Some (PList ke)))"
proof (cases "dict_get d (u ''key_elements'')")
  case None
  then show ?thesis
    by (auto simp: validate_idea_def fields_present_dict try_bind_def required_fields_def)
next
  case (Some v)
  then show ?thesis
    by (cases v) (auto simp: validate_idea_def fields_present_dict try_bind_def required_fields_def)
qed

text \<open>
  \<open>validate_idea\<close> returns \<open>True\<close> exactly for a dict that has the four required fields
  and a list under \<open>key_elements\<close>.
\<close>

lemma validate_idea_True:
  "validate_idea idea = Inr True \<longleftrightarrow>
     (\<exists>d ke. idea = PDict d \<and> (\<forall>f \<in> set required_fields. dict_get d f \<noteq> None) \<and>
        dict_get d (u ''key_elements'') = Some (PList ke))"
proof
  assume a: "validate_idea idea = Inr True"
  then obtain x where "subscript idea (u ''key_elements'') = Inr x"
    by (auto simp: validate_idea_def try_bind_Inr split: if_splits)
  then obtain d where "idea = PDict d" by (auto simp: subscript_Inr)
  with a show "\<exists>d ke. idea = PDict d \<and> (\<forall>f \<in> set required_fields. dict_get d f \<noteq> None) \<and>
        dict_get d (u ''key_elements'') = Some (PList ke)"
    by (auto simp: validate_idea_dict)
next
  assume "\<exists>d ke. idea = PDict d \<and> (\<forall>f \<in> set required_fields. dict_get d f \<noteq> None) \<and>
        dict_get d (u ''key_elements'') = Some (PList ke)"
  then show "validate_idea idea = Inr True"
    by (auto simp: validate_idea_dict)
qed

lemma idea_loop_body_dict:
  "idea_loop_body i (PDict d) =
     (if (\<forall>f \<in> set required_fields. dict_get d f \<noteq> None) \<and>
         (\<exists>ke. dict_get d (u ''key_elements'') = Some (PList ke))
      then Inr (if isinstance_int (the (dict_get d (u ''id''))) then PDict d
                else PDict (dict_set (u ''id'') (PInt (int i)) d))
      else Inl GenerationError)"
proof (cases "dict_get d (u ''key_elements'')")
  case None
  then show ?thesis
    by (auto simp: idea_loop_body_def check_fields_dict try_bind_def required_fields_def)
next
  case (Some v)
  then show ?thesis
    by (cases v) (auto simp: idea_loop_body_def check_fields_dict try_bind_def required_fields_def)
qed

lemma idea_loop_body_Inr_dict:
  assumes "idea_loop_body i idea = Inr idea'"
  shows "\<exists>d. idea = PDict d"
proof -
  from assms obtain x where "subscript idea (u ''id'') = Inr x"
    by (auto simp: idea_loop_body_def try_bind_Inr)
  then show ?thesis by (auto simp: subscript_Inr)
qed

lemma idea_loop_body_Inr:
  "idea_loop_body i idea = Inr idea' \<Longrightarrow> validate_idea idea = Inr True"
  by (frule idea_loop_body_Inr_dict)
     (auto simp: idea_loop_body_dict validate_idea_dict split: if_splits)

text \<open>The loop succeeds exactly when its body succeeds on every item, each at its position.\<close>

lemma idea_loop_Inr:
  "idea_loop i xs = Inr ys \<longleftrightarrow>
     length ys = length xs \<and> (\<forall>k < length xs. idea_loop_body (i + k) (xs ! k) = Inr (ys ! k))"
proof (induction xs arbitrary: i ys)
  case Nil
  then show ?case by auto
next
  case (Cons x xs)
  show ?case
  proof (cases ys)
    case Nil
    then show ?thesis by (auto simp: try_bind_Inr)
  next
    case (Cons y ys')
    then show ?thesis
      using Cons.IH [of "Suc i" ys']
      by (auto simp: try_bind_Inr nth_Cons split: nat.splits)
  qed
qed

lemma idea_loop_Inl:
  "(\<exists>e. idea_loop i xs = Inl e) \<longleftrightarrow>
     (\<exists>k < length xs. \<exists>e. idea_loop_body (i + k) (xs ! k) = Inl e)"
proof (induction xs arbitrary: i)
  case Nil
  then show ?case by simp
next
  case (Cons x xs)
  show ?case
  proof (cases "idea_loop_body i x")
    case (Inl e)
    then show ?thesis by (auto simp: try_bind_def intro: exI [of _ 0])
  next
    case (Inr y)
    have "(\<exists>e. idea_loop i (x # xs) = Inl e) \<longleftrightarrow> (\<exists>e. idea_loop (Suc i) xs = Inl e)"
      using Inr by (auto simp: try_bind_def split: sum.splits)
    also have "\<dots> \<longleftrightarrow> (\<exists>k < length xs. \<exists>e. idea_loop_body (Suc i + k) (xs ! k) = Inl e)"
      by (rule Cons.IH)
    also have "\<dots> \<longleftrightarrow>
        (\<exists>k < length (x # xs). \<exists>e. idea_loop_body (i + k) ((x # xs) ! k) = Inl e)"
    proof
      assume "\<exists>k < length xs. \<exists>e. idea_loop_body (Suc i + k) (xs ! k) = Inl e"
      then obtain k e where "k < length xs" "idea_loop_body (Suc i + k) (xs ! k) = Inl e"
        by blast
      then have "Suc k < length (x # xs) \<and>
          idea_loop_body (i + Suc k) ((x # xs) ! Suc k) = Inl e"
        by simp
      then show "\<exists>k < length (x # xs). \<exists>e. idea_loop_body (i + k) ((x # xs) ! k) = Inl e"
        by blast
    next
      assume "\<exists>k < length (x # xs). \<exists>e. idea_loop_body (i + k) ((x # xs) ! k) = Inl e"
      then obtain k e where k: "k < length (x # xs)"
          "idea_loop_body (i + k) ((x # xs) ! k) = Inl e"
        by blast
      with Inr obtain k' where "k = Suc k'" by (cases k) auto
      with k show "\<exists>k < length xs. \<exists>e. idea_loop_body (Suc i + k) (xs ! k) = Inl e" by auto
    qed
    finally show ?thesis .
  qed
qed

lemma generate_ideas_raises:
  "generate_ideas E S niche goal format_type = Inl e \<Longrightarrow> e = GenerationError"
  unfolding generate_ideas_def by (rule service_handlers_Inl)

lemma generate_ideas_parsed:
  assumes "request_ideas E S niche goal format_type = Inr response"
    and "json_loads E response = Some (PDict d)"
    and "dict_get d (u ''ideas'') = Some (PList xs)"
  shows "generate_ideas E S niche goal format_type =
           (if length xs < 5 then Inl GenerationError
            else service_handlers GenerationError (idea_loop 1 (take 5 xs)))"
  using assms
  by (auto simp: generate_ideas_def try_bind_def service_handlers_def)

lemma ideas_case_Inr:
  "(case ideas of
      PList xs \<Rightarrow> if length xs \<noteq> 5 \<and> length xs < 5 then Inl GenerationError
                  else idea_loop 1 (take 5 xs)
    | _ \<Rightarrow> Inl GenerationError) = Inr ys
   \<longleftrightarrow> (\<exists>xs. ideas = PList xs \<and> \<not> length xs < 5 \<and> idea_loop 1 (take 5 xs) = Inr ys)"
  by (cases ideas) auto

lemma generate_ideas_length:
  assumes "generate_ideas E S niche goal format_type = Inr ys"
  shows "length ys = 5"
proof -
  from assms obtain xs where "\<not> length xs < 5" and "idea_loop 1 (take 5 xs) = Inr ys"
    by (auto simp: generate_ideas_def service_handlers_Inr try_bind_Inr ideas_case_Inr
        split: option.splits if_splits)
  then show ?thesis by (auto simp: idea_loop_Inr)
qed

lemma generate_ideas_well_formed:
  assumes "request_ideas E S niche goal format_type = Inr response"
    and "json_loads E response = Some (PDict d)"
    and "dict_get d (u ''ideas'') = Some (PList xs)"
    and "5 \<le> length xs"
    and "\<forall>k < 5. validate_idea (xs ! k) = Inr True"
  shows "\<exists>zs. generate_ideas E S niche goal format_type = Inr zs \<and> length zs = 5 \<and>
               (\<forall>k < 5. idea_loop_body (Suc k) (xs ! k) = Inr (zs ! k))"
proof -
  have "\<not> (\<exists>e. idea_loop 1 (take 5 xs) = Inl e)"
  proof
    assume "\<exists>e. idea_loop 1 (take 5 xs) = Inl e"
    then obtain k e where k: "k < 5" and "idea_loop_body (1 + k) (take 5 xs ! k) = Inl e"
      using assms(4) by (auto simp: idea_loop_Inl)
    then have b: "idea_loop_body (Suc k) (xs ! k) = Inl e" by simp
    from assms(5) k obtain dk where "xs ! k = PDict dk" and "validate_idea (PDict dk) = Inr True"
      by (auto simp: validate_idea_True)
    with b show False by (auto simp: idea_loop_body_dict validate_idea_dict split: if_splits)
  qed
  then obtain zs where zs: "idea_loop 1 (take 5 xs) = Inr zs"
    by (cases "idea_loop 1 (take 5 xs)") auto
  with assms(4) have "length zs = 5" and "\<forall>k < 5. idea_loop_body (Suc k) (xs ! k) = Inr (zs ! k)"
    by (auto simp: idea_loop_Inr)
  moreover from assms zs have "generate_ideas E S niche goal format_type = Inr zs"
    by (simp add: generate_ideas_parsed service_handlers_def)
  ultimately show ?thesis by blast
qed

lemma generate_ideas_ill_formed:
  assumes "request_ideas E S niche goal format_type = Inr response"
    and "json_loads E response = Some (PDict d)"
    and "dict_get d (u ''ideas'') = Some (PList xs)"
    and "5 \<le> length xs"
    and "k < 5"
    and "validate_idea (xs ! k) \<noteq> Inr True"
  shows "generate_ideas E S niche goal format_type = Inl GenerationError"
proof -
  have "\<exists>e. idea_loop 1 (take 5 xs) = Inl e"
  proof (cases "idea_loop 1 (take 5 xs)")
    case (Inl e)
    then show ?thesis by blast
  next
    case (Inr zs)
    with assms(4,5) have "idea_loop_body (Suc k) (xs ! k) = Inr (zs ! k)"
      by (auto simp: idea_loop_Inr)
    with assms(6) show ?thesis by (auto dest: idea_loop_body_Inr)
  qed
  with assms show ?thesis
    by (auto simp: generate_ideas_parsed service_handlers_def)
qed

lemma request_ideas_env_batch: "request_ideas (env_batch items) S n g f = Inr (u ''ideas'')"
  by (simp add: request_ideas_def env_batch_def request_replying u_def)

lemma json_loads_env_batch:
  "json_loads (env_batch items) response = Some (PDict [(u ''ideas'', PList items)])"
  by (simp add: env_batch_def env_replying_def)

lemma dict_get_ideas: "dict_get [(u ''ideas'', PList items)] (u ''ideas'') = Some (PList items)"
  by (simp add: dict_get_def)

lemma validate_idea_with_id: "validate_idea (idea_with_id i) = Inr True"
  by (simp add: validate_idea_dict idea_with_id_def required_fields_def dict_get_def)

lemma all_below_5: "(\<forall>k < 5. P (k::nat)) \<longleftrightarrow> P 0 \<and> P 1 \<and> P 2 \<and> P 3 \<and> P 4"
proof -
  have "k < 5 \<longleftrightarrow> k = 0 \<or> k = 1 \<or> k = 2 \<or> k = 3 \<or> k = 4" for k :: nat
    by arith
  then show ?thesis by auto
qed

text \<open>
  C5, as the claim states it, fails for scrambled integers: the five ideas come back
  with the \<open>id\<close> values 3, 1, 2, 5, 4 they were sent with.
\<close>

theorem generate_ideas_keeps_scrambled_ids:
  "generate_ideas (env_ideas [PInt 3, PInt 1, PInt 2, PInt 5, PInt 4]) default_settings
       (u ''niche'') (u ''goal'') (u ''format'')
     = Inr (map idea_with_id [PInt 3, PInt 1, PInt 2, PInt 5, PInt 4]) \<and>
   map (\<lambda>idea. subscript idea (u ''id'')) (map idea_with_id [PInt 3, PInt 1, PInt 2, PInt 5, PInt 4])
     = [Inr (PInt 3), Inr (PInt 1), Inr (PInt 2), Inr (PInt 5), Inr (PInt 4)]"
proof -
  have b: "idea_loop_body n (idea_with_id (PInt m)) = Inr (idea_with_id (PInt m))" for n m
    by (simp add: idea_loop_body_dict idea_with_id_def required_fields_def dict_get_def)
  have "generate_ideas (env_ideas [PInt 3, PInt 1, PInt 2, PInt 5, PInt 4]) default_settings
       (u ''niche'') (u ''goal'') (u ''format'')
     = Inr (map idea_with_id [PInt 3, PInt 1, PInt 2, PInt 5, PInt 4])"
    unfolding env_ideas_def
    by (simp add: generate_ideas_parsed [OF request_ideas_env_batch json_loads_env_batch dict_get_ideas]
        service_handlers_def b try_bind_def)
  then show ?thesis
    by (simp add: idea_with_id_def dict_get_def)
qed

text \<open>
  C5, amended. For a response of exactly 5 items, each a dict with the four required
  fields and a list under \<open>key_elements\<close>, \<open>generate_ideas\<close> returns 5 ideas in the order
  of the response. An item whose \<open>id\<close> is not an integer gets its 1-based position as
  \<open>id\<close>; an item whose \<open>id\<close> is an integer (a boolean counts as one) keeps it, scrambled
  or not; every other field is as it was sent.
\<close>

theorem generate_ideas_ids:
  assumes "request_ideas E S niche goal format_type = Inr response"
    and "json_loads E response = Some (PDict d)"
    and "dict_get d (u ''ideas'') = Some (PList xs)"
    and "length xs = 5"
    and "\<forall>k < 5. validate_idea (xs ! k) = Inr True"
  shows "\<exists>zs. generate_ideas E S niche goal format_type = Inr zs \<and> length zs = 5 \<and>
           (\<forall>k < 5. \<exists>src.
              subscript (xs ! k) (u ''id'') = Inr src \<and>
              subscript (zs ! k) (u ''id'')
                = Inr (if isinstance_int src then src else PInt (int k + 1)) \<and>
              (\<forall>f. f \<noteq> u ''id'' \<longrightarrow> subscript (zs ! k) f = subscript (xs ! k) f))"
proof -
  from assms(4) have "5 \<le> length xs" by simp
  from generate_ideas_well_formed [OF assms(1-3) this assms(5)]
  obtain zs where g: "generate_ideas E S niche goal format_type = Inr zs" and l: "length zs = 5"
    and b: "\<forall>k < 5. idea_loop_body (Suc k) (xs ! k) = Inr (zs ! k)"
    by blast
  have "\<exists>src. subscript (xs ! k) (u ''id'') = Inr src \<and>
              subscript (zs ! k) (u ''id'')
                = Inr (if isinstance_int src then src else PInt (int k + 1)) \<and>
              (\<forall>f. f \<noteq> u ''id'' \<longrightarrow> subscript (zs ! k) f = subscript (xs ! k) f)"
    if k: "k < 5" for k
  proof -
    from assms(5) k obtain dk where x: "xs ! k = PDict dk"
      and v: "validate_idea (PDict dk) = Inr True"
      by (auto simp: validate_idea_True)
    from v obtain src where s: "dict_get dk (u ''id'') = Some src"
      by (auto simp: validate_idea_dict required_fields_def)
    from b k have "idea_loop_body (Suc k) (xs ! k) = Inr (zs ! k)" by blast
    with x have "idea_loop_body (Suc k) (PDict dk) = Inr (zs ! k)" by simp
    with v s have z: "zs ! k = (if isinstance_int src then PDict dk
                else PDict (dict_set (u ''id'') (PInt (int (Suc k))) dk))"
      by (auto simp: idea_loop_body_dict validate_idea_dict split: if_splits)
    show ?thesis
      using x s z by (auto simp: add.commute)
  qed
  with g l show ?thesis by blast
qed

theorem generate_ideas_ids_witness:
  "request_ideas (env_ideas [PStr (u ''a''), PNone, PInt 3, PFloat (Float 40 (- 1)), PInt 7])
       default_settings (u ''niche'') (u ''goal'') (u ''format'') = Inr (u ''ideas'') \<and>
   length (map idea_with_id [PStr (u ''a''), PNone, PInt 3, PFloat (Float 40 (- 1)), PInt 7]) = 5 \<and>
   (\<exists>zs. generate_ideas (env_ideas [PStr (u ''a''), PNone, PInt 3, PFloat (Float 40 (- 1)), PInt 7])
            default_settings (u ''niche'') (u ''goal'') (u ''format'') = Inr zs \<and>
         length zs = 5 \<and>
         subscript (zs ! 0) (u ''id'') = Inr (PInt 1) \<and>
         subscript (zs ! 1) (u ''id'') = Inr (PInt 2) \<and>
         subscript (zs ! 2) (u ''id'') = Inr (PInt 3) \<and>
         subscript (zs ! 3) (u ''id'') = Inr (PInt 4) \<and>
         subscript (zs ! 4) (u ''id'') = Inr (PInt 7) \<and>
         subscript (zs ! 4) (u ''title'') = Inr (PStr (u ''t'')))"
proof -
  let ?ids = "[PStr (u ''a''), PNone, PInt 3, PFloat (Float 40 (- 1)), PInt 7]"
  have r: "request_ideas (env_batch (map idea_with_id ?ids))
       default_settings (u ''niche'') (u ''goal'') (u ''format'') = Inr (u ''ideas'')"
    by (rule request_ideas_env_batch)
  have n: "length (map idea_with_id ?ids) = 5" by simp
  have w: "\<forall>k < 5. validate_idea (map idea_with_id ?ids ! k) = Inr True"
    by (simp add: all_below_5 validate_idea_with_id)
  from generate_ideas_ids [OF r json_loads_env_batch dict_get_ideas n w]
  obtain zs where g: "generate_ideas (env_batch (map idea_with_id ?ids))
            default_settings (u ''niche'') (u ''goal'') (u ''format'') = Inr zs"
    and l: "length zs = 5"
    and a: "\<forall>k < 5. \<exists>src.
              subscript (map idea_with_id ?ids ! k) (u ''id'') = Inr src \<and>
              subscript (zs ! k) (u ''id'')
                = Inr (if isinstance_int src then src else PInt (int k + 1)) \<and>
              (\<forall>f. f \<noteq> u ''id'' \<longrightarrow>
                 subscript (zs ! k) f = subscript (map idea_with_id ?ids ! k) f)"
    by blast
  from a have "subscript (zs ! 0) (u ''id'') = Inr (PInt 1) \<and>
         subscript (zs ! 1) (u ''id'') = Inr (PInt 2) \<and>
         subscript (zs ! 2) (u ''id'') = Inr (PInt 3) \<and>
         subscript (zs ! 3) (u ''id'') = Inr (PInt 4) \<and>
         subscript (zs ! 4) (u ''id'') = Inr (PInt 7) \<and>
         subscript (zs ! 4) (u ''title'') = Inr (PStr (u ''t''))"
    unfolding all_below_5 by (auto simp: idea_with_id_def dict_get_def)
  with r g l show ?thesis
    unfolding env_ideas_def by auto
qed

lemma complete_idea_iff:
  "validate_idea idea = Inr True \<longleftrightarrow>
     (\<exists>dk ke. idea = PDict dk \<and> dict_get dk (u ''id'') \<noteq> None \<and>
        dict_get dk (u ''title'') \<noteq> None \<and> dict_get dk (u ''description'') \<noteq> None \<and>
        dict_get dk (u ''key_elements'') = Some (PList ke))"
  by (auto simp: validate_idea_True required_fields_def)

lemma idea_loop_body_complete:
  assumes "idea_loop_body i idea = Inr idea'"
  shows "\<exists>dk src. idea = PDict dk \<and> dict_get dk (u ''id'') = Some src \<and>
           idea' = (if isinstance_int src then PDict dk
                    else PDict (dict_set (u ''id'') (PInt (int i)) dk))"
proof -
  from assms obtain dk where d: "idea = PDict dk" by (auto dest: idea_loop_body_Inr_dict)
  from assms have "validate_idea idea = Inr True" by (rule idea_loop_body_Inr)
  with d obtain src where s: "dict_get dk (u ''id'') = Some src"
    by (auto simp: validate_idea_dict required_fields_def)
  from assms d s show ?thesis
    by (auto simp: idea_loop_body_dict split: if_splits)
qed

text \<open>
  C6. Whenever \<open>generate_ideas\<close> returns, it returns 5 ideas, and whatever it raises
  is \<open>GenerationError\<close>. When the reply parses to an object with a list under \<open>ideas\<close>:
  fewer than 5 items raise \<open>GenerationError\<close> (nothing is padded); 5 or more items, of
  which each of the first 5 is a dict with \<open>id\<close>, \<open>title\<close>, \<open>description\<close> and a list
  under \<open>key_elements\<close>, return exactly the first 5 items, in order, each as it was sent
  but for an \<open>id\<close> that is no integer, which is replaced by the item's position; and 5
  or more items with one of the first 5 not of that form (not a dict, a required field
  missing, \<open>key_elements\<close> not a list) raise \<open>GenerationError\<close>.
\<close>

theorem generate_ideas_batch_of_five:
  "(generate_ideas E S niche goal format_type = Inr ys \<longrightarrow> length ys = 5) \<and>
   (generate_ideas E S niche goal format_type = Inl e \<longrightarrow> e = GenerationError) \<and>
   (request_ideas E S niche goal format_type = Inr response \<and>
    json_loads E response = Some (PDict d) \<and>
    dict_get d (u ''ideas'') = Some (PList xs) \<longrightarrow>
      (length xs < 5 \<longrightarrow> generate_ideas E S niche goal format_type = Inl GenerationError) \<and>
      (5 \<le> length xs \<and>
       (\<forall>k < 5. \<exists>dk ke. xs ! k = PDict dk \<and> dict_get dk (u ''id'') \<noteq> None \<and>
          dict_get dk (u ''title'') \<noteq> None \<and> dict_get dk (u ''description'') \<noteq> None \<and>
          dict_get dk (u ''key_elements'') = Some (PList ke)) \<longrightarrow>
         (\<exists>zs. generate_ideas E S niche goal format_type = Inr zs \<and> length zs = 5 \<and>
               (\<forall>k < 5. \<exists>dk src. xs ! k = PDict dk \<and> dict_get dk (u ''id'') = Some src \<and>
                  zs ! k = (if isinstance_int src then PDict dk
                            else PDict (dict_set (u ''id'') (PInt (int k + 1)) dk))))) \<and>
      (5 \<le> length xs \<and>
       (\<exists>k < 5. \<not> (\<exists>dk ke. xs ! k = PDict dk \<and> dict_get dk (u ''id'') \<noteq> None \<and>
          dict_get dk (u ''title'') \<noteq> None \<and> dict_get dk (u ''description'') \<noteq> None \<and>
          dict_get dk (u ''key_elements'') = Some (PList ke))) \<longrightarrow>
         generate_ideas E S niche goal format_type = Inl GenerationError))"
proof (intro conjI impI)
  assume "generate_ideas E S niche goal format_type = Inr ys"
  then show "length ys = 5" by (rule generate_ideas_length)
next
  assume "generate_ideas E S niche goal format_type = Inl e"
  then show "e = GenerationError" by (rule generate_ideas_raises)
next
  assume "request_ideas E S niche goal format_type = Inr response \<and>
    json_loads E response = Some (PDict d) \<and> dict_get d (u ''ideas'') = Some (PList xs)"
    and "length xs < 5"
  then show "generate_ideas E S niche goal format_type = Inl GenerationError"
    by (simp add: generate_ideas_parsed)
next
  assume p: "request_ideas E S niche goal format_type = Inr response \<and>
    json_loads E response = Some (PDict d) \<and> dict_get d (u ''ideas'') = Some (PList xs)"
    and w: "5 \<le> length xs \<and>
       (\<forall>k < 5. \<exists>dk ke. xs ! k = PDict dk \<and> dict_get dk (u ''id'') \<noteq> None \<and>
          dict_get dk (u ''title'') \<noteq> None \<and> dict_get dk (u ''description'') \<noteq> None \<and>
          dict_get dk (u ''key_elements'') = Some (PList ke))"
  from w have v: "\<forall>k < 5. validate_idea (xs ! k) = Inr True"
    unfolding complete_idea_iff by simp
  from p w v have "\<exists>zs. generate_ideas E S niche goal format_type = Inr zs \<and> length zs = 5 \<and>
               (\<forall>k < 5. idea_loop_body (Suc k) (xs ! k) = Inr (zs ! k))"
    by (intro generate_ideas_well_formed) auto
  then obtain zs where g: "generate_ideas E S niche goal format_type = Inr zs"
    and l: "length zs = 5"
    and b: "\<forall>k < 5. idea_loop_body (Suc k) (xs ! k) = Inr (zs ! k)"
    by blast
  have "\<exists>dk src. xs ! k = PDict dk \<and> dict_get dk (u ''id'') = Some src \<and>
                  zs ! k = (if isinstance_int src then PDict dk
                            else PDict (dict_set (u ''id'') (PInt (int k + 1)) dk))"
    if "k < 5" for k
  proof -
    from b that have h: "idea_loop_body (Suc k) (xs ! k) = Inr (zs ! k)" by blast
    have e: "int (Suc k) = int k + 1" by simp
    from idea_loop_body_complete [OF h, unfolded e] show ?thesis .
  qed
  with g l show "\<exists>zs. generate_ideas E S niche goal format_type = Inr zs \<and> length zs = 5 \<and>
               (\<forall>k < 5. \<exists>dk src. xs ! k = PDict dk \<and> dict_get dk (u ''id'') = Some src \<and>
                  zs ! k = (if isinstance_int src then PDict dk
                            else PDict (dict_set (u ''id'') (PInt (int k + 1)) dk)))"
    by blast
next
  assume p: "request_ideas E S niche goal format_type = Inr response \<and>
    json_loads E response = Some (PDict d) \<and> dict_get d (u ''ideas'') = Some (PList xs)"
    and w: "5 \<le> length xs \<and>
       (\<exists>k < 5. \<not> (\<exists>dk ke. xs ! k = PDict dk \<and> dict_get dk (u ''id'') \<noteq> None \<and>
          dict_get dk (u ''title'') \<noteq> None \<and> dict_get dk (u ''description'') \<noteq> None \<and>
          dict_get dk (u ''key_elements'') = Some (PList ke)))"
  then obtain k where "k < 5" and "validate_idea (xs ! k) \<noteq> Inr True"
    unfolding complete_idea_iff by blast
  with p w show "generate_ideas E S niche goal format_type = Inl GenerationError"
    by (intro generate_ideas_ill_formed [where k = k and xs = xs]) auto
qed

theorem generate_ideas_batch_of_five_witness:
  "generate_ideas (env_ideas [PInt 1, PInt 2, PInt 3]) default_settings
       (u ''niche'') (u ''goal'') (u ''format'') = Inl GenerationError \<and>
   generate_ideas (env_ideas [PInt 1, PStr (u ''x''), PInt 3, PInt 9, PInt 5, PInt 6])
       default_settings (u ''niche'') (u ''goal'') (u ''format'')
     = Inr [idea_with_id (PInt 1), idea_with_id (PInt 2), idea_with_id (PInt 3),
            idea_with_id (PInt 9), idea_with_id (PInt 5)] \<and>
   generate_ideas (env_batch (map idea_with_id [PInt 1, PInt 2, PInt 3, PInt 4] @
                               [PDict [(u ''id'', PInt 5), (u ''title'', PStr (u ''t''))]]))
       default_settings (u ''niche'') (u ''goal'') (u ''format'') = Inl GenerationError \<and>
   generate_ideas (env_batch (map idea_with_id [PInt 1, PInt 2, PInt 3, PInt 4] @
                               [PDict [(u ''id'', PInt 5), (u ''title'', PStr (u ''t'')),
                                       (u ''description'', PStr (u ''d'')),
                                       (u ''key_elements'', PStr (u ''k''))]]))
       default_settings (u ''niche'') (u ''goal'') (u ''format'') = Inl GenerationError"
proof -
  note parse = request_ideas_env_batch json_loads_env_batch dict_get_ideas
  let ?short = "map idea_with_id [PInt 1, PInt 2, PInt 3]"
  let ?long = "map idea_with_id [PInt 1, PStr (u ''x''), PInt 3, PInt 9, PInt 5, PInt 6]"
  let ?no_fields = "PDict [(u ''id'', PInt 5), (u ''title'', PStr (u ''t''))]"
  let ?no_list = "PDict [(u ''id'', PInt 5), (u ''title'', PStr (u ''t'')),
                         (u ''description'', PStr (u ''d'')), (u ''key_elements'', PStr (u ''k''))]"
  let ?four = "map idea_with_id [PInt 1, PInt 2, PInt 3, PInt 4]"
  have a: "generate_ideas (env_batch ?short) default_settings
       (u ''niche'') (u ''goal'') (u ''format'') = Inl GenerationError"
    using generate_ideas_batch_of_five [where E = "env_batch ?short" and S = default_settings
        and niche = "u ''niche''" and goal = "u ''goal''" and format_type = "u ''format''"
        and ys = "[]" and e = GenerationError and response = "u ''ideas''"
        and d = "[(u ''ideas'', PList ?short)]" and xs = ?short]
    by (simp add: parse)
  have "\<exists>zs. generate_ideas (env_batch ?long) default_settings
            (u ''niche'') (u ''goal'') (u ''format'') = Inr zs \<and> length zs = 5 \<and>
         zs ! 0 = idea_with_id (PInt 1) \<and> zs ! 1 = idea_with_id (PInt 2) \<and>
         zs ! 2 = idea_with_id (PInt 3) \<and> zs ! 3 = idea_with_id (PInt 9) \<and>
         zs ! 4 = idea_with_id (PInt 5)"
    using generate_ideas_batch_of_five [where E = "env_batch ?long" and S = default_settings
        and niche = "u ''niche''" and goal = "u ''goal''" and format_type = "u ''format''"
        and ys = "[]" and e = GenerationError and response = "u ''ideas''"
        and d = "[(u ''ideas'', PList ?long)]" and xs = ?long]
    by (auto simp: parse all_below_5 idea_with_id_def dict_get_def)
  then obtain zs where g: "generate_ideas (env_batch ?long) default_settings
            (u ''niche'') (u ''goal'') (u ''format'') = Inr zs" and l: "length zs = 5"
    and z: "zs ! 0 = idea_with_id (PInt 1)" "zs ! 1 = idea_with_id (PInt 2)"
         "zs ! 2 = idea_with_id (PInt 3)" "zs ! 3 = idea_with_id (PInt 9)"
         "zs ! 4 = idea_with_id (PInt 5)"
    by blast
  have "zs = [idea_with_id (PInt 1), idea_with_id (PInt 2), idea_with_id (PInt 3),
            idea_with_id (PInt 9), idea_with_id (PInt 5)]"
    using l z by (simp add: list_eq_iff_nth_eq all_below_5)
  with g have b: "generate_ideas (env_batch ?long) default_settings
            (u ''niche'') (u ''goal'') (u ''format'')
     = Inr [idea_with_id (PInt 1), idea_with_id (PInt 2), idea_with_id (PInt 3),
            idea_with_id (PInt 9), idea_with_id (PInt 5)]"
    by simp
  have e: "generate_ideas (env_batch (?four @ [?no_fields])) default_settings
       (u ''niche'') (u ''goal'') (u ''format'') = Inl GenerationError"
    using generate_ideas_batch_of_five [where E = "env_batch (?four @ [?no_fields])"
        and S = default_settings
        and niche = "u ''niche''" and goal = "u ''goal''" and format_type = "u ''format''"
        and ys = "[]" and e = GenerationError and response = "u ''ideas''"
        and d = "[(u ''ideas'', PList (?four @ [?no_fields]))]"
        and xs = "?four @ [?no_fields]"]
    by (auto simp: parse all_below_5 dict_get_def)
  have f: "generate_ideas (env_batch (?four @ [?no_list])) default_settings
       (u ''niche'') (u ''goal'') (u ''format'') = Inl GenerationError"
    using generate_ideas_batch_of_five [where E = "env_batch (?four @ [?no_list])"
        and S = default_settings
        and niche = "u ''niche''" and goal = "u ''goal''" and format_type = "u ''format''"
        and ys = "[]" and e = GenerationError and response = "u ''ideas''"
        and d = "[(u ''ideas'', PList (?four @ [?no_list]))]"
        and xs = "?four @ [?no_list]"]
    by (auto simp: parse all_below_5 dict_get_def)
  from a b e f show ?thesis
    unfolding env_ideas_def by simp
qed

end
